theory Spec2Isabelle
  imports Complex_Main
begin

section \<open>Python string and list primitives\<close>

text \<open>
  The service of \<^verbatim>\<open>app/services/ai_service.py\<close> is string processing over Python
  \<^verbatim>\<open>str\<close>. A string is modelled as a \<^typ>\<open>string\<close>, one \<^typ>\<open>char\<close> per character, for
  ASCII text: \<^verbatim>\<open>lower()\<close> maps \<^verbatim>\<open>A-Z\<close> to \<^verbatim>\<open>a-z\<close> and keeps every other
  character, and the white space of \<^verbatim>\<open>strip()\<close> and \<^verbatim>\<open>split()\<close> is the ASCII white space
  of Python (\<^verbatim>\<open>\t \n \v \f \r\<close>, \<^verbatim>\<open>0x1c-0x1f\<close> and the blank).

  Outside ASCII the \<^verbatim>\<open>lower()\<close> of Python is another function: it maps further
  letters, and it may change the length of a string (the capital I with a dot,
  \<^verbatim>\<open>U+0130\<close>, becomes two characters), so that an index into the lower-cased copy of a
  string is an index into the string itself for ASCII text only. A statement that
  compares such indices is made for strings that satisfy \<open>is_ascii\<close>.
\<close>

definition is_ascii :: "string \<Rightarrow> bool" where
  "is_ascii s = list_all (\<lambda>c. \<not> digit7 c) s"

definition lower_char :: "char \<Rightarrow> char" where
  "lower_char c =
     (case map_of (zip ''ABCDEFGHIJKLMNOPQRSTUVWXYZ'' ''abcdefghijklmnopqrstuvwxyz'') c of
        None \<Rightarrow> c
      | Some d \<Rightarrow> d)"

definition lower :: "string \<Rightarrow> string" where
  "lower s = map lower_char s"

definition is_space :: "char \<Rightarrow> bool" where
  "is_space c =
     (c \<in> set [CHR 0x09, CHR 0x0A, CHR 0x0B, CHR 0x0C, CHR 0x0D,
               CHR 0x1C, CHR 0x1D, CHR 0x1E, CHR 0x1F, CHR 0x20])"

text \<open>\<^verbatim>\<open>s.strip()\<close>\<close>

definition py_strip :: "string \<Rightarrow> string" where
  "py_strip s = rev (dropWhile is_space (rev (dropWhile is_space s)))"

text \<open>\<^verbatim>\<open>s.split()\<close>: the maximal runs of characters that are not white space.\<close>

fun split_words :: "string \<Rightarrow> string \<Rightarrow> string list" where
  "split_words w [] = (if w = [] then [] else [w])"
| "split_words w (c # cs) =
     (if is_space c then (if w = [] then split_words [] cs else w # split_words [] cs)
      else split_words (w @ [c]) cs)"

definition py_split :: "string \<Rightarrow> string list" where
  "py_split s = split_words [] s"

text \<open>\<^verbatim>\<open>s.split(sep)\<close> for a separator of one character.\<close>

fun split_on :: "char \<Rightarrow> string \<Rightarrow> string \<Rightarrow> string list" where
  "split_on sep w [] = [w]"
| "split_on sep w (c # cs) =
     (if c = sep then w # split_on sep [] cs else split_on sep (w @ [c]) cs)"

definition py_split_on :: "string \<Rightarrow> char \<Rightarrow> string list" where
  "py_split_on s sep = split_on sep [] s"

text \<open>\<^verbatim>\<open>sep.join(xs)\<close>\<close>

fun py_join :: "string \<Rightarrow> string list \<Rightarrow> string" where
  "py_join sep [] = []"
| "py_join sep [x] = x"
| "py_join sep (x # y # ys) = x @ sep @ py_join sep (y # ys)"

text \<open>\<^verbatim>\<open>s.startswith(p)\<close> and \<^verbatim>\<open>sub in s\<close>\<close>

fun startswith :: "string \<Rightarrow> string \<Rightarrow> bool" where
  "startswith s [] = True"
| "startswith [] (p # ps) = False"
| "startswith (c # cs) (p # ps) = (c = p \<and> startswith cs ps)"

fun py_in :: "string \<Rightarrow> string \<Rightarrow> bool" where
  "py_in sub [] = (sub = [])"
| "py_in sub (c # cs) = (startswith (c # cs) sub \<or> py_in sub cs)"

text \<open>
  Slices \<^verbatim>\<open>xs[a:b]\<close>, \<^verbatim>\<open>xs[a:]\<close> and \<^verbatim>\<open>xs[:b]\<close>: an index below zero counts from the
  end, and every index is clamped to the list.
\<close>

definition clamp_index :: "nat \<Rightarrow> int \<Rightarrow> nat" where
  "clamp_index n i = (if i < 0 then nat (max 0 (int n + i)) else min n (nat i))"

definition py_slice :: "'a list \<Rightarrow> int \<Rightarrow> int \<Rightarrow> 'a list" where
  "py_slice xs a b =
     (let i = clamp_index (length xs) a; j = clamp_index (length xs) b
      in take (j - i) (drop i xs))"

definition py_slice_from :: "'a list \<Rightarrow> int \<Rightarrow> 'a list" where
  "py_slice_from xs a = drop (clamp_index (length xs) a) xs"

definition py_slice_to :: "'a list \<Rightarrow> int \<Rightarrow> 'a list" where
  "py_slice_to xs b = take (clamp_index (length xs) b) xs"

text \<open>
  \<^verbatim>\<open>s.find(sub, start)\<close>: the lowest index at or after \<^verbatim>\<open>start\<close> where \<^verbatim>\<open>sub\<close> occurs,
  \<^verbatim>\<open>-1\<close> when there is none.
\<close>

fun find_offset :: "string \<Rightarrow> string \<Rightarrow> nat option" where
  "find_offset sub [] = (if sub = [] then Some 0 else None)"
| "find_offset sub (c # cs) =
     (if startswith (c # cs) sub then Some 0 else map_option Suc (find_offset sub cs))"

definition py_find :: "string \<Rightarrow> string \<Rightarrow> int \<Rightarrow> int" where
  "py_find s sub start =
     (if int (length s) < start then - 1
      else (let i = clamp_index (length s) start
            in case find_offset sub (drop i s) of
                 None \<Rightarrow> - 1
               | Some k \<Rightarrow> int (i + k)))"

text \<open>
  \<^verbatim>\<open>s.replace(old, new)\<close>: the occurrences of \<^verbatim>\<open>old\<close> are found from the left and do
  not overlap; \<^verbatim>\<open>k\<close> counts the characters of a found occurrence still to be skipped. An
  empty \<^verbatim>\<open>old\<close> matches before every character and at the end.
\<close>

fun replace_scan :: "string \<Rightarrow> string \<Rightarrow> nat \<Rightarrow> string \<Rightarrow> string" where
  "replace_scan old new k [] = []"
| "replace_scan old new k (c # cs) =
     (if 0 < k then replace_scan old new (k - 1) cs
      else if startswith (c # cs) old then new @ replace_scan old new (length old - 1) cs
      else c # replace_scan old new 0 cs)"

definition py_replace :: "string \<Rightarrow> string \<Rightarrow> string \<Rightarrow> string" where
  "py_replace s old new =
     (if old = [] then new @ concat (map (\<lambda>c. c # new) s) else replace_scan old new 0 s)"

section \<open>Data model\<close>

text \<open>\<^verbatim>\<open>app/core/config.py\<close>: the settings the service reads.\<close>

record Settings =
  MODEL_NAME :: string
  BUSINESS_NAME :: string
  BUSINESS_TYPE :: string
  BUSINESS_DETAILS :: string
  ALLOWED_TOPICS :: string
  RESTRICTED_TOPICS :: string

definition default_settings :: Settings where
  "default_settings =
     \<lparr> MODEL_NAME = ''microsoft/DialoGPT-medium'',
       BUSINESS_NAME = ''Demo Business'',
       BUSINESS_TYPE = ''customer service'',
       BUSINESS_DETAILS = ''No specific business details configured yet.'',
       ALLOWED_TOPICS = ''general questions,product information,pricing,support'',
       RESTRICTED_TOPICS = ''medical advice,legal advice,financial advice,personal information'' \<rparr>"

text \<open>\<^verbatim>\<open>app/models/chat.py\<close>: a message of a conversation; the time stamp in seconds.\<close>

record ChatMessage =
  role :: string
  content :: string
  timestamp :: "nat option"

record BusinessConfig =
  name :: string
  type :: string
  allowed_topics :: "string list"
  restricted_topics :: "string list"

text \<open>The dictionary that \<^verbatim>\<open>chat\<close> returns.\<close>

record ChatResult =
  response :: string
  conversation_id :: string
  model_used :: string
  processing_time :: real
  tokens_used :: nat

text \<open>
  The state of an \<^verbatim>\<open>AIService\<close> that \<^verbatim>\<open>chat\<close> reads and writes: the name of the
  loaded model, the business configuration and the conversation memory, a dictionary
  from conversation id to the list of its messages.
\<close>

record AIService =
  model_name :: string
  business_config :: BusinessConfig
  conversation_memory :: "string \<rightharpoonup> ChatMessage list"

text \<open>
  What a call of \<^verbatim>\<open>chat\<close> takes from outside the program: the identifier that
  \<^verbatim>\<open>uuid.uuid4()\<close> returns, the text-generation pipeline, which for a prompt either
  raises or returns its list of generated texts, and the clock at the start of the call
  and at its return.
\<close>

datatype pipeline_outcome = Pipeline_raises | Pipeline_returns "string list"

datatype py_exception = Exception

record Env =
  uuid4 :: string
  pipeline :: "string \<Rightarrow> pipeline_outcome"
  time_start :: real
  time_end :: real

section \<open>The service: \<^verbatim>\<open>app/services/ai_service.py\<close>\<close>

definition nl :: string where
  "nl = [CHR 0x0A]"

subsection \<open>Business configuration\<close>

definition load_business_config :: "Settings \<Rightarrow> BusinessConfig" where
  "load_business_config settings =
     \<lparr> name = BUSINESS_NAME settings,
       type = BUSINESS_TYPE settings,
       allowed_topics = map py_strip (py_split_on (ALLOWED_TOPICS settings) (CHR '','')),
       restricted_topics = map py_strip (py_split_on (RESTRICTED_TOPICS settings) (CHR '','')) \<rparr>"

text \<open>\<^verbatim>\<open>AIService.__init__\<close>: no conversation is stored yet.\<close>

definition new_service :: "Settings \<Rightarrow> AIService" where
  "new_service settings =
     \<lparr> model_name = MODEL_NAME settings,
       business_config = load_business_config settings,
       conversation_memory = Map.empty \<rparr>"

subsection \<open>Topic check\<close>

text \<open>
  The loop of \<^verbatim>\<open>_is_on_topic\<close> over the restricted topics: the first topic found in
  the lower-cased message ends the loop with the redirect message.
\<close>

definition redirect_text :: "string \<Rightarrow> string \<Rightarrow> string" where
  "redirect_text restricted business_type =
     ''I can't provide '' @ restricted @ ''. Let me help you with '' @ business_type
       @ '' related questions instead.''"

fun check_restricted :: "string \<Rightarrow> string list \<Rightarrow> string \<Rightarrow> bool \<times> string option" where
  "check_restricted business_type [] message_lower = (True, None)"
| "check_restricted business_type (restricted # rest) message_lower =
     (if py_in (lower restricted) message_lower
      then (False, Some (redirect_text restricted business_type))
      else check_restricted business_type rest message_lower)"

definition is_on_topic :: "AIService \<Rightarrow> string \<Rightarrow> bool \<times> string option" where
  "is_on_topic self message =
     (let message_lower = lower message
      in check_restricted (type (business_config self))
           (restricted_topics (business_config self)) message_lower)"

subsection \<open>Direct answers from the business details\<close>

definition patterns :: "(string \<times> string list) list" where
  "patterns =
     [(''hours'', [''hours'', ''open'', ''close'', ''when are you open'', ''what time'']),
      (''location'', [''location'', ''address'', ''where are you'', ''where located'']),
      (''contact'', [''contact'', ''phone'', ''email'', ''call'', ''reach'']),
      (''pricing'', [''price'', ''cost'', ''how much'', ''pricing'', ''plan'']),
      (''shipping'', [''shipping'', ''delivery'', ''ship'']),
      (''returns'', [''return'', ''refund'', ''money back'']),
      (''services'', [''service'', ''what do you do'', ''what do you offer''])]"

text \<open>
  The end index that most branches compute:
  \<^verbatim>\<open>details_full.find(".", start) if "." in details_full[start:] else len(details_full)\<close>,
  and the one of the contact branch, with its window of 50 characters and its default
  of 40: \<^verbatim>\<open>details_full.find(sep, start) if sep in details_full[start:start+50] else start+40\<close>.
\<close>

definition sentence_end :: "string \<Rightarrow> int \<Rightarrow> int" where
  "sentence_end details_full start =
     (if py_in ''.'' (py_slice_from details_full start) then py_find details_full ''.'' start
      else int (length details_full))"

definition window_end :: "string \<Rightarrow> string \<Rightarrow> int \<Rightarrow> int" where
  "window_end details_full sep start =
     (if py_in sep (py_slice details_full start (start + 50)) then py_find details_full sep start
      else start + 40)"

text \<open>
  The chain of \<^verbatim>\<open>if\<close> statements in the body of the loop of \<^verbatim>\<open>_get_direct_answer\<close>,
  for a topic whose keywords matched: \<^term>\<open>None\<close> when no branch returns.
\<close>

definition topic_answer :: "string \<Rightarrow> string \<Rightarrow> string option" where
  "topic_answer topic details_full =
     (let business_details = lower details_full in
      if topic = ''hours'' \<and> py_in ''hours:'' business_details then
        (let start = py_find (lower details_full) ''hours:'' 0;
             end = sentence_end details_full start
         in Some (''Our '' @ py_strip (py_slice details_full start end)
                  @ ''. Is there anything else you'd like to know?''))
      else if topic = ''location'' \<and> py_in ''location:'' business_details then
        (let start = py_find (lower details_full) ''location:'' 0;
             end = sentence_end details_full start
         in Some (''We're located at: '' @ py_strip (py_slice details_full (start + 9) end)
                  @ ''. Feel free to visit us!''))
      else if topic = ''contact''
              \<and> (py_in ''phone'' business_details \<or> py_in ''email'' business_details) then
        (let contact_info = [];
             contact_info =
               (if py_in ''phone'' business_details then
                  (let start = py_find (lower details_full) ''phone'' 0;
                       end = window_end details_full '','' start
                   in contact_info @ [py_strip (py_slice details_full start end)])
                else contact_info);
             contact_info =
               (if py_in ''email'' business_details then
                  (let start = py_find (lower details_full) ''email'' 0;
                       end = window_end details_full ''.'' start
                   in contact_info @ [py_strip (py_slice details_full start end)])
                else contact_info)
         in Some (''You can reach us at: '' @ py_join '', '' contact_info
                  @ ''. We're here to help!''))
      else if topic = ''pricing'' \<and> py_in ''pricing:'' business_details then
        (let start = py_find (lower details_full) ''pricing:'' 0;
             end = sentence_end details_full start
         in Some (''Our '' @ py_strip (py_slice details_full start end)
                  @ ''. Would you like more details on any specific plan?''))
      else if topic = ''shipping'' \<and> py_in ''shipping:'' business_details then
        (let start = py_find (lower details_full) ''shipping:'' 0;
             end = sentence_end details_full start
         in Some (''Regarding '' @ py_strip (py_slice details_full start end)
                  @ ''. Can I help you with anything else?''))
      else if topic = ''returns'' \<and> py_in ''return'' business_details then
        (let start = py_find (lower details_full) ''return'' 0;
             end = sentence_end details_full start
         in Some (''Our return policy: '' @ py_strip (py_slice details_full start end)
                  @ ''. Let me know if you have questions!''))
      else if topic = ''services'' \<and> py_in ''services:'' business_details then
        (let start = py_find (lower details_full) ''services:'' 0;
             end = sentence_end details_full start
         in Some (''We '' @ py_strip (py_slice details_full (start + 9) end)
                  @ ''. What can I help you with today?''))
      else None)"

text \<open>The loop over the topics, in the order of the dictionary \<^verbatim>\<open>patterns\<close>.\<close>

fun scan_patterns :: "(string \<times> string list) list \<Rightarrow> string \<Rightarrow> string \<Rightarrow> string option" where
  "scan_patterns [] message_lower details_full = None"
| "scan_patterns ((topic, keywords) # rest) message_lower details_full =
     (if list_ex (\<lambda>keyword. py_in keyword message_lower) keywords then
        (case topic_answer topic details_full of
           Some answer \<Rightarrow> Some answer
         | None \<Rightarrow> scan_patterns rest message_lower details_full)
      else scan_patterns rest message_lower details_full)"

definition get_direct_answer :: "Settings \<Rightarrow> string \<Rightarrow> string option" where
  "get_direct_answer settings message =
     (let message_lower = lower message
      in scan_patterns patterns message_lower (BUSINESS_DETAILS settings))"

subsection \<open>Prompt\<close>

definition build_conversation_context :: "ChatMessage list \<Rightarrow> int \<Rightarrow> string" where
  "build_conversation_context conversation_history max_context =
     (if conversation_history = [] then []
      else (let recent_messages = py_slice_from conversation_history (- max_context)
            in py_join nl
                 (map (\<lambda>msg. (if role msg = ''user'' then ''Human'' else ''Assistant'')
                               @ '': '' @ content msg)
                    recent_messages)))"

definition create_business_prompt :: "Settings \<Rightarrow> AIService \<Rightarrow> string \<Rightarrow> string \<Rightarrow> string" where
  "create_business_prompt settings self user_message context =
     ''You are a helpful assistant for '' @ name (business_config self) @ '', a ''
       @ type (business_config self) @ ''.'' @ nl
     @ nl
     @ ''BUSINESS INFORMATION:'' @ nl
     @ BUSINESS_DETAILS settings @ nl
     @ nl
     @ ''GUIDELINES:'' @ nl
     @ ''- Be professional, helpful, and friendly'' @ nl
     @ ''- Use the business information above to answer questions accurately'' @ nl
     @ ''- Focus on topics related to: ''
       @ py_join '', '' (allowed_topics (business_config self)) @ nl
     @ ''- If asked about unrelated topics, politely redirect to your area of expertise'' @ nl
     @ ''- Keep responses concise and helpful'' @ nl
     @ ''- End with a helpful question when appropriate'' @ nl
     @ nl
     @ ''CONVERSATION CONTEXT:'' @ nl
     @ context @ nl
     @ nl
     @ ''USER: '' @ user_message @ nl
     @ ''ASSISTANT:''"

subsection \<open>Generation and cleaning\<close>

text \<open>
  \<^verbatim>\<open>_generate_response\<close>: the body of its \<^verbatim>\<open>try\<close>, where the call of the pipeline may
  raise, and the function with its handler, which returns a fixed sentence for every
  exception.
\<close>

definition generate_response_try :: "Env \<Rightarrow> string \<Rightarrow> py_exception + string" where
  "generate_response_try env prompt =
     (case pipeline env prompt of
        Pipeline_raises \<Rightarrow> Inl Exception
      | Pipeline_returns outputs \<Rightarrow>
          (if outputs \<noteq> [] \<and> 0 < length outputs then Inr (hd outputs)
           else Inr ''I'm not sure how to respond to that. Could you please rephrase your question?''))"

definition generate_response :: "Env \<Rightarrow> string \<Rightarrow> py_exception + string" where
  "generate_response env prompt =
     (case generate_response_try env prompt of
        Inl e \<Rightarrow> Inr ''I apologize, but I'm having trouble processing your request right now.''
      | Inr text \<Rightarrow> Inr text)"

fun remove_prefixes :: "string list \<Rightarrow> string \<Rightarrow> string" where
  "remove_prefixes [] cleaned = cleaned"
| "remove_prefixes (prefix # rest) cleaned =
     remove_prefixes rest
       (if startswith cleaned prefix
        then py_strip (py_slice_from cleaned (int (length prefix)))
        else cleaned)"

definition clean_response :: "string \<Rightarrow> string \<Rightarrow> string" where
  "clean_response generated original_message =
     (if generated = [] then
        ''I'm not sure how to respond to that. Could you please rephrase your question?''
      else
        (let cleaned = py_strip (py_replace generated original_message []);
             prefixes_to_remove = [''ASSISTANT:'', ''Assistant:'', ''AI:'', ''Bot:''];
             cleaned = remove_prefixes prefixes_to_remove cleaned;
             cleaned = (if cleaned = []
                        then ''I understand your question. How can I help you further?''
                        else cleaned);
             cleaned = (if 500 < length cleaned then py_slice_to cleaned 500 @ ''...''
                        else cleaned)
         in cleaned))"

subsection \<open>Conversation memory\<close>

definition get_conversation_history :: "AIService \<Rightarrow> string \<Rightarrow> ChatMessage list" where
  "get_conversation_history self cid =
     (case conversation_memory self cid of None \<Rightarrow> [] | Some history \<Rightarrow> history)"

definition clear_conversation :: "AIService \<Rightarrow> string \<Rightarrow> AIService" where
  "clear_conversation self cid =
     (if conversation_memory self cid \<noteq> None
      then self\<lparr>conversation_memory := (conversation_memory self)(cid := None)\<rparr>
      else self)"

text \<open>
  Lines 269 to 280 of \<^verbatim>\<open>chat\<close>: the list of the conversation is created when the id
  is new, the two messages are appended, and only the last ten are kept.
\<close>

definition store_exchange :: "AIService \<Rightarrow> string \<Rightarrow> string \<Rightarrow> string \<Rightarrow> AIService" where
  "store_exchange self cid message cleaned_response =
     (let history = (case conversation_memory self cid of None \<Rightarrow> [] | Some h \<Rightarrow> h);
          history = history @ [\<lparr>role = ''user'', content = message, timestamp = None\<rparr>,
                               \<lparr>role = ''assistant'', content = cleaned_response,
                                timestamp = None\<rparr>];
          history = (if 10 < length history then py_slice_from history (- 10) else history)
      in self\<lparr>conversation_memory := (conversation_memory self)(cid \<mapsto> history)\<rparr>)"

subsection \<open>\<^verbatim>\<open>chat\<close>\<close>

text \<open>
  The body of the \<^verbatim>\<open>try\<close> of \<^verbatim>\<open>chat\<close>. The awaited generator either returns a text
  or raises, so it is a parameter \<open>generate\<close> of the body; \<^verbatim>\<open>chat\<close> itself calls
  \<^verbatim>\<open>_generate_response\<close>. An exception of the generator leaves the body before the
  memory is written.
\<close>

definition chat_try ::
  "(string \<Rightarrow> py_exception + string) \<Rightarrow> Settings \<Rightarrow> Env \<Rightarrow> AIService \<Rightarrow> string \<Rightarrow> string
     \<Rightarrow> ChatMessage list option \<Rightarrow> string option \<Rightarrow> py_exception + ChatResult \<times> AIService" where
  "chat_try generate settings env self message cid conversation_history context =
     (let conversation_context =
            (case conversation_history of
               None \<Rightarrow> []
             | Some h \<Rightarrow> if h \<noteq> [] then build_conversation_context h 3 else []);
          conversation_context =
            (case context of
               None \<Rightarrow> conversation_context
             | Some c \<Rightarrow> if c \<noteq> [] then conversation_context @ nl @ ''Additional Context: '' @ c
                         else conversation_context);
          prompt = create_business_prompt settings self message conversation_context
      in case generate prompt of
           Inl e \<Rightarrow> Inl e
         | Inr generated \<Rightarrow>
             (let cleaned_response = clean_response generated message;
                  elapsed = time_end env - time_start env
              in Inr (\<lparr> response = cleaned_response,
                         conversation_id = cid,
                         model_used = model_name self,
                         processing_time = elapsed,
                         tokens_used = length (py_split cleaned_response) \<rparr>,
                      store_exchange self cid message cleaned_response)))"

definition chat_with ::
  "(string \<Rightarrow> py_exception + string) \<Rightarrow> Settings \<Rightarrow> Env \<Rightarrow> AIService \<Rightarrow> string \<Rightarrow> string option
     \<Rightarrow> ChatMessage list option \<Rightarrow> string option \<Rightarrow> ChatResult \<times> AIService" where
  "chat_with generate settings env self message conversation_id' conversation_history context =
     (let cid = (case conversation_id' of
                   None \<Rightarrow> uuid4 env
                 | Some c \<Rightarrow> if c = [] then uuid4 env else c);
          (is_appropriate, redirect_message) = is_on_topic self message
      in if \<not> is_appropriate then
           (\<lparr> response = the redirect_message,
              conversation_id = cid,
              model_used = ''business_rules'',
              processing_time = time_end env - time_start env,
              tokens_used = 0 \<rparr>, self)
         else
           (let direct_answer = get_direct_answer settings message
            in if direct_answer \<noteq> None \<and> direct_answer \<noteq> Some [] then
                 (\<lparr> response = the direct_answer,
                    conversation_id = cid,
                    model_used = ''business_knowledge'',
                    processing_time = time_end env - time_start env,
                    tokens_used = length (py_split (the direct_answer)) \<rparr>, self)
               else
                 (case chat_try generate settings env self message cid conversation_history
                         context of
                    Inr returned \<Rightarrow> returned
                  | Inl e \<Rightarrow>
                      (\<lparr> response = ''I apologize, but I'm experiencing technical difficulties. Please try again in a moment.'',
                         conversation_id = cid,
                         model_used = ''error_handler'',
                         processing_time = time_end env - time_start env,
                         tokens_used = 0 \<rparr>, self))))"

definition chat ::
  "Settings \<Rightarrow> Env \<Rightarrow> AIService \<Rightarrow> string \<Rightarrow> string option \<Rightarrow> ChatMessage list option
     \<Rightarrow> string option \<Rightarrow> ChatResult \<times> AIService" where
  "chat settings env self message conversation_id' conversation_history context =
     chat_with (generate_response env) settings env self message conversation_id'
       conversation_history context"

section \<open>Requests to a running service\<close>

text \<open>
  The service lives as long as the process and answers one request after the other:
  \<^verbatim>\<open>chat\<close> with its arguments and with what that call takes from outside, or
  \<^verbatim>\<open>clear_conversation\<close>.
\<close>

datatype request =
  Chat_request Env string "string option" "ChatMessage list option" "string option"
| Clear_request string

fun serve :: "Settings \<Rightarrow> AIService \<Rightarrow> request \<Rightarrow> AIService" where
  "serve settings self (Chat_request env message cid history context) =
     snd (chat settings env self message cid history context)"
| "serve settings self (Clear_request cid) = clear_conversation self cid"

fun serve_all :: "Settings \<Rightarrow> AIService \<Rightarrow> request list \<Rightarrow> AIService" where
  "serve_all settings self [] = self"
| "serve_all settings self (r # rs) = serve_all settings (serve settings self r) rs"

section \<open>Notions of the specification\<close>

text \<open>The last \<open>n\<close> elements of a list, in their order.\<close>

definition last_n :: "nat \<Rightarrow> 'a list \<Rightarrow> 'a list" where
  "last_n n xs = drop (length xs - n) xs"

text \<open>
  The prompt that \<^verbatim>\<open>chat\<close> builds on the generation path: the context of the
  conversation history, the additional context when there is one, and the message.
\<close>

definition chat_prompt ::
  "Settings \<Rightarrow> AIService \<Rightarrow> string \<Rightarrow> ChatMessage list option \<Rightarrow> string option \<Rightarrow> string" where
  "chat_prompt settings self message conversation_history context =
     create_business_prompt settings self message
       ((case conversation_history of
           None \<Rightarrow> []
         | Some h \<Rightarrow> if h \<noteq> [] then build_conversation_context h 3 else [])
        @ (case context of
             None \<Rightarrow> []
           | Some c \<Rightarrow> if c \<noteq> [] then nl @ ''Additional Context: '' @ c else []))"

text \<open>
  A call is on the generation path when the topic check accepts the message and there
  is no direct answer to it.
\<close>

definition on_generation_path :: "Settings \<Rightarrow> AIService \<Rightarrow> string \<Rightarrow> bool" where
  "on_generation_path settings self message =
     (fst (is_on_topic self message) \<and> get_direct_answer settings message = None)"

text \<open>
  The turns appended for the conversation \<open>cid\<close>, without any bound: a call of
  \<^verbatim>\<open>chat\<close> on the generation path that answers under the id \<open>cid\<close> appends the message
  of the user and the response it returns, and clearing the conversation starts again
  from nothing.
\<close>

fun log_request :: "Settings \<Rightarrow> AIService \<Rightarrow> string \<Rightarrow> request \<Rightarrow> ChatMessage list
    \<Rightarrow> ChatMessage list" where
  "log_request settings self cid (Clear_request c) turns = (if c = cid then [] else turns)"
| "log_request settings self cid (Chat_request env message given history context) turns =
     (let result = fst (chat settings env self message given history context)
      in if on_generation_path settings self message \<and> conversation_id result = cid
         then turns @ [\<lparr>role = ''user'', content = message, timestamp = None\<rparr>,
                     \<lparr>role = ''assistant'', content = response result, timestamp = None\<rparr>]
         else turns)"

fun appended_turns :: "Settings \<Rightarrow> AIService \<Rightarrow> string \<Rightarrow> ChatMessage list \<Rightarrow> request list
    \<Rightarrow> ChatMessage list" where
  "appended_turns settings self cid turns [] = turns"
| "appended_turns settings self cid turns (r # rs) =
     appended_turns settings (serve settings self r) cid (log_request settings self cid r turns) rs"

text \<open>
  The steps of the response cleaner after the removal of the message: a role label at
  the start is cut off and the rest trimmed, an empty text is replaced by the fixed
  sentence, and a text of more than 500 characters is cut to 500 and marked.
\<close>

definition strip_label :: "string \<Rightarrow> string \<Rightarrow> string" where
  "strip_label label s =
     (if take (length label) s = label then py_strip (drop (length label) s) else s)"

definition or_fallback :: "string \<Rightarrow> string" where
  "or_fallback s =
     (if s = [] then ''I understand your question. How can I help you further?'' else s)"

definition truncate_500 :: "string \<Rightarrow> string" where
  "truncate_500 s = (if length s \<le> 500 then s else take 500 s @ ''...'')"

text \<open>
  The fact extractor in the terms of the specification. Every topic has its anchors, the
  texts looked for in the lower-cased details; a topic is ready for a message when one
  of its keywords occurs in the lower-cased message and one of its anchors in the
  lower-cased details.
\<close>

definition anchors :: "(string \<times> string list) list" where
  "anchors =
     [(''hours'', [''hours:'']),
      (''location'', [''location:'']),
      (''contact'', [''phone'', ''email'']),
      (''pricing'', [''pricing:'']),
      (''shipping'', [''shipping:'']),
      (''returns'', [''return'']),
      (''services'', [''services:''])]"

definition anchor_present :: "string \<Rightarrow> string \<Rightarrow> bool" where
  "anchor_present topic details =
     (case map_of anchors topic of
        None \<Rightarrow> False
      | Some as \<Rightarrow> list_ex (\<lambda>a. py_in a (lower details)) as)"

definition keyword_match :: "string list \<Rightarrow> string \<Rightarrow> bool" where
  "keyword_match keywords message = list_ex (\<lambda>k. py_in k (lower message)) keywords"

definition topic_ready :: "string \<Rightarrow> string \<Rightarrow> string \<times> string list \<Rightarrow> bool" where
  "topic_ready details message entry =
     (keyword_match (snd entry) message \<and> anchor_present (fst entry) details)"

text \<open>
  The index of the first occurrence of an anchor in the lower-cased details, the text
  from an index up to the next full stop or to the end, and the piece of the contact
  topic: up to the separator when it is among the first 50 characters from the index,
  and 40 characters otherwise.
\<close>

definition anchor_index :: "string \<Rightarrow> string \<Rightarrow> nat" where
  "anchor_index anchor details =
     (case find_offset anchor (lower details) of None \<Rightarrow> length details | Some i \<Rightarrow> i)"

definition sentence_from :: "nat \<Rightarrow> string \<Rightarrow> string" where
  "sentence_from i details = takeWhile (\<lambda>c. c \<noteq> CHR ''.'') (drop i details)"

definition contact_piece :: "nat \<Rightarrow> char \<Rightarrow> string \<Rightarrow> string" where
  "contact_piece i sep details =
     (if sep \<in> set (take 50 (drop i details))
      then takeWhile (\<lambda>c. c \<noteq> sep) (drop i details)
      else take 40 (drop i details))"

text \<open>
  The reply of a topic: its sentence around the trimmed text. Hours, pricing, shipping
  and returns embed the text from the anchor on; location and services leave out the
  nine characters of the anchor; contact joins the pieces for phone and for email.
\<close>

definition reply_spec :: "string \<Rightarrow> string \<Rightarrow> string" where
  "reply_spec topic details =
     (if topic = ''hours'' then
        ''Our '' @ py_strip (sentence_from (anchor_index ''hours:'' details) details)
          @ ''. Is there anything else you'd like to know?''
      else if topic = ''location'' then
        ''We're located at: ''
          @ py_strip (drop 9 (sentence_from (anchor_index ''location:'' details) details))
          @ ''. Feel free to visit us!''
      else if topic = ''contact'' then
        ''You can reach us at: ''
          @ py_join '', ''
              ((if py_in ''phone'' (lower details)
                then [py_strip (contact_piece (anchor_index ''phone'' details) (CHR '','') details)]
                else [])
               @ (if py_in ''email'' (lower details)
                  then [py_strip (contact_piece (anchor_index ''email'' details) (CHR ''.'') details)]
                  else []))
          @ ''. We're here to help!''
      else if topic = ''pricing'' then
        ''Our '' @ py_strip (sentence_from (anchor_index ''pricing:'' details) details)
          @ ''. Would you like more details on any specific plan?''
      else if topic = ''shipping'' then
        ''Regarding '' @ py_strip (sentence_from (anchor_index ''shipping:'' details) details)
          @ ''. Can I help you with anything else?''
      else if topic = ''returns'' then
        ''Our return policy: ''
          @ py_strip (sentence_from (anchor_index ''return'' details) details)
          @ ''. Let me know if you have questions!''
      else
        ''We '' @ py_strip (drop 9 (sentence_from (anchor_index ''services:'' details) details))
          @ ''. What can I help you with today?'')"

text \<open>The extractor answers for the first ready topic, in the order of the topics.\<close>

definition extract_spec :: "string \<Rightarrow> string \<Rightarrow> string option" where
  "extract_spec details message =
     (case List.find (topic_ready details message) patterns of
        None \<Rightarrow> None
      | Some entry \<Rightarrow> Some (reply_spec (fst entry) details))"

section \<open>Example inputs\<close>

definition hours_settings :: Settings where
  "hours_settings = default_settings\<lparr>BUSINESS_DETAILS := ''Hours: 9am-6pm Mon-Fri.''\<rparr>"

definition failing_env :: Env where
  "failing_env =
     \<lparr> uuid4 = ''0f8fad5b-d9cb-469f-a165-70867728950e'',
       pipeline = (\<lambda>prompt. Pipeline_raises),
       time_start = 0, time_end = 1 \<rparr>"

definition answering_env :: Env where
  "answering_env =
     \<lparr> uuid4 = ''0f8fad5b-d9cb-469f-a165-70867728950e'',
       pipeline = (\<lambda>prompt. Pipeline_returns [''Bot: Glad to help you today.'']),
       time_start = 0, time_end = 1 \<rparr>"

definition populated_service :: AIService where
  "populated_service =
     store_exchange (new_service default_settings) ''abc'' ''Hi'' ''Hello there''"

definition six_requests :: "request list" where
  "six_requests =
     map (\<lambda>message. Chat_request answering_env message (Some ''c1'') None None)
       [''one'', ''two'', ''three'', ''four'', ''five'', ''six'']"

definition contact_settings :: Settings where
  "contact_settings =
     default_settings\<lparr>BUSINESS_DETAILS := ''Phone 555-1234, open daily. Bye.''\<rparr>"

definition bakery_settings :: Settings where
  "bakery_settings =
     default_settings\<lparr>BUSINESS_DETAILS :=
       ''We are a bakery. Hours: 9am-6pm Mon-Fri. Location: 5 Main St. Returns within 30 days''\<rparr>"


section \<open>Properties of the primitives\<close>

subsection \<open>Substrings\<close>

lemma startswith_iff: "startswith s p \<longleftrightarrow> (\<exists>t. s = p @ t)"
  by (induction s p rule: startswith.induct) auto

lemma startswith_take: "startswith s p \<longleftrightarrow> take (length p) s = p"
  by (induction s p rule: startswith.induct) auto

lemma py_in_iff: "py_in sub s \<longleftrightarrow> (\<exists>pre post. s = pre @ sub @ post)"
proof (induction s)
  case Nil
  then show ?case by auto
next
  case (Cons c cs)
  show ?case
  proof
    assume "py_in sub (c # cs)"
    then consider "startswith (c # cs) sub" | "py_in sub cs" by auto
    then show "\<exists>pre post. c # cs = pre @ sub @ post"
    proof cases
      case 1
      then obtain t where "c # cs = sub @ t" unfolding startswith_iff ..
      then have "c # cs = [] @ sub @ t" by simp
      then show ?thesis by blast
    next
      case 2
      then obtain pre post where "cs = pre @ sub @ post" using Cons.IH by blast
      then have "c # cs = (c # pre) @ sub @ post" by simp
      then show ?thesis by blast
    qed
  next
    assume "\<exists>pre post. c # cs = pre @ sub @ post"
    then obtain pre post where eq: "c # cs = pre @ sub @ post" by blast
    show "py_in sub (c # cs)"
    proof (cases pre)
      case Nil
      with eq have "startswith (c # cs) sub" unfolding startswith_iff by auto
      then show ?thesis by simp
    next
      case (Cons a pre')
      with eq have "cs = pre' @ sub @ post" by simp
      then have "py_in sub cs" using Cons.IH by blast
      then show ?thesis by simp
    qed
  qed
qed

lemma py_in_char: "py_in [c] s \<longleftrightarrow> c \<in> set s"
  by (induction s) auto

lemma py_in_find_offset: "py_in sub s \<longleftrightarrow> find_offset sub s \<noteq> None"
  by (induction s) auto

lemma find_offset_le: "find_offset sub s = Some k \<Longrightarrow> k \<le> length s"
  by (induction s arbitrary: k) (auto split: if_splits)

lemma find_offset_char:
  "c \<in> set s \<Longrightarrow> find_offset [c] s = Some (length (takeWhile (\<lambda>x. x \<noteq> c) s))"
  by (induction s) auto

lemma startswith_shorter:
  "startswith (x # a @ b) sub \<Longrightarrow> startswith (x # a @ take (length sub - 1) b) sub"
  by (cases sub) (auto simp: startswith_take)

lemma find_offset_first:
  assumes "startswith b sub" and "\<not> py_in sub (a @ take (length sub - 1) b)"
  shows "find_offset sub (a @ b) = Some (length a)"
  using assms
proof (induction a)
  case Nil
  then show ?case by (cases b) (auto simp: startswith_take)
next
  case (Cons x a)
  then have "\<not> startswith (x # a @ b) sub"
    using startswith_shorter [of x a b sub] by auto
  then show ?case using Cons by simp
qed

subsection \<open>Indices and slices\<close>

lemma clamp_index_nat [simp]: "clamp_index n (int k) = min n k"
  by (simp add: clamp_index_def)

lemma py_find_0: "py_find s sub 0 = (case find_offset sub s of None \<Rightarrow> - 1 | Some k \<Rightarrow> int k)"
  by (simp add: py_find_def clamp_index_def split: option.splits)

lemma py_find_char:
  assumes "k \<le> length d" and "c \<in> set (drop k d)"
  shows "py_find d [c] (int k) = int (k + length (takeWhile (\<lambda>x. x \<noteq> c) (drop k d)))"
  using assms by (simp add: py_find_def find_offset_char)

lemma py_slice_nat: "py_slice d (int i) (int j) = take (j - i) (drop i d)"
proof (cases "i \<le> length d")
  case True
  have "take (min (length d) j - i) (drop i d) = take (j - i) (drop i d)"
    by (cases "j \<le> length d") (simp_all add: min_def)
  then show ?thesis using True by (simp add: py_slice_def min_def)
next
  case False
  then show ?thesis by (simp add: py_slice_def)
qed

lemma take_length_takeWhile: "take (length (takeWhile P xs)) xs = takeWhile P xs"
  by (metis takeWhile_eq_take)

lemma sentence_end_eq:
  assumes "k \<le> length d"
  shows "sentence_end d (int k) = int (k + length (takeWhile (\<lambda>x. x \<noteq> CHR ''.'') (drop k d)))"
proof (cases "CHR ''.'' \<in> set (drop k d)")
  case True
  then show ?thesis using assms
    by (simp add: sentence_end_def py_slice_from_def py_in_char py_find_def find_offset_char)
next
  case False
  then have "takeWhile (\<lambda>x. x \<noteq> CHR ''.'') (drop k d) = drop k d"
    by (auto simp: takeWhile_eq_all_conv)
  then have "length (takeWhile (\<lambda>x. x \<noteq> CHR ''.'') (drop k d)) = length d - k"
    by (metis length_drop)
  then show ?thesis using False assms
    by (simp add: sentence_end_def py_slice_from_def py_in_char)
qed

lemma sentence_slice:
  assumes "k \<le> length d"
  shows "py_slice d (int k) (sentence_end d (int k)) = sentence_from k d"
    and "py_slice d (int k + 9) (sentence_end d (int k)) = drop 9 (sentence_from k d)"
proof -
  let ?n = "length (takeWhile (\<lambda>x. x \<noteq> CHR ''.'') (drop k d))"
  have skip: "int k + 9 = int (k + 9)" by simp
  have whole: "take ?n (drop k d) = sentence_from k d"
    by (simp only: sentence_from_def take_length_takeWhile)
  have "py_slice d (int k) (sentence_end d (int k)) = take (k + ?n - k) (drop k d)"
    by (simp only: sentence_end_eq [OF assms] py_slice_nat)
  then show "py_slice d (int k) (sentence_end d (int k)) = sentence_from k d"
    using whole by simp
  have "py_slice d (int k + 9) (sentence_end d (int k)) = take (k + ?n - (k + 9)) (drop (k + 9) d)"
    by (simp only: skip sentence_end_eq [OF assms] py_slice_nat)
  also have "\<dots> = take (?n - 9) (drop 9 (drop k d))"
    by (simp add: add.commute)
  also have "\<dots> = drop 9 (take ?n (drop k d))"
    by (simp only: drop_take)
  finally show "py_slice d (int k + 9) (sentence_end d (int k)) = drop 9 (sentence_from k d)"
    using whole by simp
qed

lemma window_slice:
  assumes "k \<le> length d"
  shows "py_slice d (int k) (window_end d [sep] (int k)) = contact_piece k sep d"
proof -
  have window: "py_slice d (int k) (int k + 50) = take 50 (drop k d)"
    using py_slice_nat [of d k "k + 50"] by simp
  show ?thesis
  proof (cases "sep \<in> set (take 50 (drop k d))")
    case True
    then have "sep \<in> set (drop k d)"
      by (meson in_set_takeD)
    then have "py_find d [sep] (int k) = int (k + length (takeWhile (\<lambda>x. x \<noteq> sep) (drop k d)))"
      using assms by (rule py_find_char [rotated])
    then show ?thesis
      using True
      by (simp only: window_end_def window py_in_char contact_piece_def if_True py_slice_nat)
         (simp add: take_length_takeWhile)
  next
    case False
    have "py_slice d (int k) (int k + 40) = take 40 (drop k d)"
      using py_slice_nat [of d k "k + 40"] by simp
    then show ?thesis
      using False by (simp add: window_end_def window py_in_char contact_piece_def)
  qed
qed

section \<open>Properties of the service\<close>

subsection \<open>Topic check\<close>

lemma check_restricted_first:
  assumes "\<forall>q \<in> set before. \<not> py_in (lower q) ml" and "py_in (lower r) ml"
  shows "check_restricted bt (before @ r # after) ml = (False, Some (redirect_text r bt))"
  using assms by (induction before) auto

subsection \<open>Fact extractor\<close>

text \<open>
  The code takes the index of an anchor from the lower-cased copy of the details and
  slices the details themselves with it. For ASCII details the copy has the length of
  the details, and the index lies in them.
\<close>

lemma lower_keeps_length:
  assumes "is_ascii s"
  shows "length (lower s) = length s"
  using assms by (simp add: lower_def)

lemma anchor_index_le:
  assumes "is_ascii details"
  shows "anchor_index anchor details \<le> length details"
proof (cases "find_offset anchor (lower details)")
  case None
  then show ?thesis by (simp add: anchor_index_def)
next
  case (Some k)
  then have "k \<le> length (lower details)"
    by (rule find_offset_le)
  then show ?thesis
    using Some lower_keeps_length [OF assms] by (simp add: anchor_index_def)
qed

lemma anchor_found:
  assumes "py_in anchor (lower details)"
  shows "py_find (lower details) anchor 0 = int (anchor_index anchor details)"
proof -
  obtain k where k: "find_offset anchor (lower details) = Some k"
    using assms by (auto simp: py_in_find_offset)
  then show ?thesis
    by (simp add: py_find_0 anchor_index_def)
qed

lemma anchor_sentence:
  assumes "py_in anchor (lower details)"
    and "anchor_index anchor details \<le> length details"
  shows "py_slice details (py_find (lower details) anchor 0)
           (sentence_end details (py_find (lower details) anchor 0))
         = sentence_from (anchor_index anchor details) details"
    and "py_slice details (py_find (lower details) anchor 0 + 9)
           (sentence_end details (py_find (lower details) anchor 0))
         = drop 9 (sentence_from (anchor_index anchor details) details)"
  using sentence_slice [OF assms(2)]
  by (simp_all only: anchor_found [OF assms(1)])

lemma anchor_window:
  assumes "py_in anchor (lower details)"
    and "anchor_index anchor details \<le> length details"
  shows "py_slice details (py_find (lower details) anchor 0)
           (window_end details [sep] (py_find (lower details) anchor 0))
         = contact_piece (anchor_index anchor details) sep details"
  using window_slice [OF assms(2)]
  by (simp only: anchor_found [OF assms(1)])

lemma topic_answer_hours:
  assumes "anchor_index ''hours:'' details \<le> length details"
  shows "topic_answer ''hours'' details =
     (if py_in ''hours:'' (lower details) then Some (reply_spec ''hours'' details) else None)"
  using assms by (simp add: topic_answer_def reply_spec_def Let_def anchor_sentence)

lemma topic_answer_location:
  assumes "anchor_index ''location:'' details \<le> length details"
  shows "topic_answer ''location'' details =
     (if py_in ''location:'' (lower details) then Some (reply_spec ''location'' details) else None)"
  using assms by (simp add: topic_answer_def reply_spec_def Let_def anchor_sentence)

lemma topic_answer_contact:
  assumes "anchor_index ''phone'' details \<le> length details"
    and "anchor_index ''email'' details \<le> length details"
  shows "topic_answer ''contact'' details =
     (if py_in ''phone'' (lower details) \<or> py_in ''email'' (lower details)
      then Some (reply_spec ''contact'' details) else None)"
  using anchor_window [of "''phone''" details "CHR '',''"]
    anchor_window [of "''email''" details "CHR ''.''"] assms
  by (simp add: topic_answer_def reply_spec_def Let_def)

lemma topic_answer_pricing:
  assumes "anchor_index ''pricing:'' details \<le> length details"
  shows "topic_answer ''pricing'' details =
     (if py_in ''pricing:'' (lower details) then Some (reply_spec ''pricing'' details) else None)"
  using assms by (simp add: topic_answer_def reply_spec_def Let_def anchor_sentence)

lemma topic_answer_shipping:
  assumes "anchor_index ''shipping:'' details \<le> length details"
  shows "topic_answer ''shipping'' details =
     (if py_in ''shipping:'' (lower details) then Some (reply_spec ''shipping'' details) else None)"
  using assms by (simp add: topic_answer_def reply_spec_def Let_def anchor_sentence)

lemma topic_answer_returns:
  assumes "anchor_index ''return'' details \<le> length details"
  shows "topic_answer ''returns'' details =
     (if py_in ''return'' (lower details) then Some (reply_spec ''returns'' details) else None)"
  using assms by (simp add: topic_answer_def reply_spec_def Let_def anchor_sentence)

lemma topic_answer_services:
  assumes "anchor_index ''services:'' details \<le> length details"
  shows "topic_answer ''services'' details =
     (if py_in ''services:'' (lower details) then Some (reply_spec ''services'' details) else None)"
  using assms by (simp add: topic_answer_def reply_spec_def Let_def anchor_sentence)

text \<open>
  Whether a topic answers at all does not depend on any index: it answers when one of
  its anchors is in the lower-cased details.
\<close>

lemma topic_answer_ready:
  assumes "anchor_present topic details"
  shows "topic_answer topic details \<noteq> None"
  using assms
  by (auto simp: anchor_present_def anchors_def topic_answer_def Let_def split: if_splits)

lemma scan_patterns_ready:
  assumes "entry \<in> set ps"
    and "list_ex (\<lambda>keyword. py_in keyword ml) (snd entry)"
    and "topic_answer (fst entry) details \<noteq> None"
  shows "scan_patterns ps ml details \<noteq> None"
  using assms
  by (induction ps ml details rule: scan_patterns.induct) (auto split: option.splits)

lemma find_first:
  assumes "\<forall>e \<in> set before. \<not> P e" and "P x"
  shows "List.find P (before @ x # after) = Some x"
  using assms by (induction before) auto

lemma topic_answer_patterns:
  assumes "is_ascii details"
  shows "\<forall>entry \<in> set patterns.
     topic_answer (fst entry) details =
       (if anchor_present (fst entry) details then Some (reply_spec (fst entry) details)
        else None)"
  by (simp add: patterns_def anchor_present_def anchors_def topic_answer_hours
        topic_answer_location topic_answer_contact topic_answer_pricing topic_answer_shipping
        topic_answer_returns topic_answer_services anchor_index_le [OF assms])

lemma scan_patterns_find:
  assumes "\<forall>entry \<in> set ps.
     topic_answer (fst entry) details =
       (if anchor_present (fst entry) details then Some (reply_spec (fst entry) details)
        else None)"
  shows "scan_patterns ps (lower message) details =
     (case List.find (topic_ready details message) ps of
        None \<Rightarrow> None
      | Some entry \<Rightarrow> Some (reply_spec (fst entry) details))"
  using assms
  by (induction ps "lower message" details rule: scan_patterns.induct)
     (auto simp: topic_ready_def keyword_match_def)

lemma get_direct_answer_extract:
  assumes "is_ascii (BUSINESS_DETAILS settings)"
  shows "get_direct_answer settings message = extract_spec (BUSINESS_DETAILS settings) message"
  by (simp add: get_direct_answer_def extract_spec_def scan_patterns_find
        topic_answer_patterns [OF assms])

lemma topic_answer_nonempty: "topic_answer topic details \<noteq> Some []"
  by (simp add: topic_answer_def Let_def)

lemma scan_patterns_nonempty: "scan_patterns ps ml details \<noteq> Some []"
  by (induction ps ml details rule: scan_patterns.induct)
     (auto simp: topic_answer_nonempty split: option.splits)

lemma get_direct_answer_nonempty: "get_direct_answer settings message \<noteq> Some []"
  by (simp add: get_direct_answer_def scan_patterns_nonempty)

subsection \<open>Response cleaner\<close>

lemma remove_prefix_step:
  "(if startswith cleaned prefix then py_strip (py_slice_from cleaned (int (length prefix)))
    else cleaned) = strip_label prefix cleaned"
  by (simp add: strip_label_def startswith_take py_slice_from_def min_def)

lemma py_slice_to_500: "py_slice_to s 500 = take 500 s"
  by (simp add: py_slice_to_def clamp_index_def min_def)

lemma truncate_500_length: "length (truncate_500 s) \<le> 503"
  by (simp add: truncate_500_def)

lemma truncate_or_fallback_nonempty: "truncate_500 (or_fallback s) \<noteq> []"
  by (simp add: truncate_500_def or_fallback_def)

lemma clean_response_steps:
  "clean_response raw message =
     (if raw = [] then
        ''I'm not sure how to respond to that. Could you please rephrase your question?''
      else truncate_500 (or_fallback
             (strip_label ''Bot:'' (strip_label ''AI:'' (strip_label ''Assistant:''
               (strip_label ''ASSISTANT:'' (py_strip (py_replace raw message []))))))))"
  by (simp add: clean_response_def Let_def remove_prefix_step py_slice_to_500
        truncate_500_def or_fallback_def del: One_nat_def)

subsection \<open>Generator and the branches of \<^verbatim>\<open>chat\<close>\<close>

lemma generate_response_returns: "\<exists>generated. generate_response env prompt = Inr generated"
  by (simp add: generate_response_def split: sum.splits)

lemma generate_response_raises:
  "pipeline env prompt = Pipeline_raises \<Longrightarrow>
   generate_response env prompt =
     Inr ''I apologize, but I'm having trouble processing your request right now.''"
  by (simp add: generate_response_def generate_response_try_def)

lemma chat_try_eq:
  "chat_try generate settings env self message cid history context =
     (case generate (chat_prompt settings self message history context) of
        Inl e \<Rightarrow> Inl e
      | Inr generated \<Rightarrow>
          Inr (\<lparr> response = clean_response generated message,
                   conversation_id = cid,
                   model_used = model_name self,
                   processing_time = time_end env - time_start env,
                   tokens_used = length (py_split (clean_response generated message)) \<rparr>,
               store_exchange self cid message (clean_response generated message)))"
  by (simp add: chat_try_def chat_prompt_def Let_def split: option.splits sum.splits)

lemma chat_with_rejected:
  assumes "is_on_topic self message = (False, Some redirect)"
  shows "chat_with generate settings env self message given history context =
     (\<lparr> response = redirect,
        conversation_id = (case given of None \<Rightarrow> uuid4 env
                           | Some c \<Rightarrow> if c = [] then uuid4 env else c),
        model_used = ''business_rules'',
        processing_time = time_end env - time_start env,
        tokens_used = 0 \<rparr>, self)"
  using assms by (simp add: chat_with_def Let_def)

lemma chat_with_direct:
  assumes "fst (is_on_topic self message)"
    and "get_direct_answer settings message = Some answer" and "answer \<noteq> []"
  shows "chat_with generate settings env self message given history context =
     (\<lparr> response = answer,
        conversation_id = (case given of None \<Rightarrow> uuid4 env
                           | Some c \<Rightarrow> if c = [] then uuid4 env else c),
        model_used = ''business_knowledge'',
        processing_time = time_end env - time_start env,
        tokens_used = length (py_split answer) \<rparr>, self)"
  using assms by (cases "is_on_topic self message") (simp add: chat_with_def Let_def)

lemma chat_with_generation:
  assumes "fst (is_on_topic self message)"
    and "get_direct_answer settings message = None"
  shows "chat_with generate settings env self message given history context =
     (let cid = (case given of None \<Rightarrow> uuid4 env | Some c \<Rightarrow> if c = [] then uuid4 env else c)
      in case chat_try generate settings env self message cid history context of
           Inr returned \<Rightarrow> returned
         | Inl e \<Rightarrow>
            (\<lparr> response = ''I apologize, but I'm experiencing technical difficulties. Please try again in a moment.'',
               conversation_id = cid,
               model_used = ''error_handler'',
               processing_time = time_end env - time_start env,
               tokens_used = 0 \<rparr>, self))"
  using assms by (cases "is_on_topic self message") (simp add: chat_with_def Let_def)

subsection \<open>Conversation memory\<close>

lemma last_n_append_last_n: "last_n n (last_n n xs @ ys) = last_n n (xs @ ys)"
  by (cases "n \<le> length xs") (simp_all add: last_n_def add.commute)

lemma last_n_length: "length (last_n n xs) \<le> n"
  by (simp add: last_n_def)

lemma keep_last_ten:
  "(if 10 < length xs then py_slice_from xs (- 10) else xs) = last_n 10 xs"
  by (simp add: py_slice_from_def clamp_index_def last_n_def nat_diff_distrib')

lemma store_exchange_history:
  "get_conversation_history (store_exchange self cid message cleaned) c =
     (if c = cid
      then last_n 10 (get_conversation_history self cid
             @ [\<lparr>role = ''user'', content = message, timestamp = None\<rparr>,
                \<lparr>role = ''assistant'', content = cleaned, timestamp = None\<rparr>])
      else get_conversation_history self c)"
  by (simp add: store_exchange_def get_conversation_history_def Let_def keep_last_ten
           del: One_nat_def split: option.splits)

lemma clear_conversation_history:
  "get_conversation_history (clear_conversation self c) cid =
     (if c = cid then [] else get_conversation_history self cid)"
  by (simp add: clear_conversation_def get_conversation_history_def)

lemma chat_history:
  "get_conversation_history (snd (chat settings env self message given history context)) cid =
     (if on_generation_path settings self message
         \<and> conversation_id (fst (chat settings env self message given history context)) = cid
      then last_n 10 (get_conversation_history self cid
             @ [\<lparr>role = ''user'', content = message, timestamp = None\<rparr>,
                \<lparr>role = ''assistant'',
                 content = response (fst (chat settings env self message given history context)),
                 timestamp = None\<rparr>])
      else get_conversation_history self cid)"
proof (cases "fst (is_on_topic self message)")
  case False
  then obtain redirect where "is_on_topic self message = (False, redirect)"
    by (cases "is_on_topic self message") simp
  then show ?thesis
    by (simp add: chat_def chat_with_def Let_def on_generation_path_def)
next
  case gate: True
  show ?thesis
  proof (cases "get_direct_answer settings message")
    case None
    obtain generated where
      "generate_response env (chat_prompt settings self message history context) = Inr generated"
      using generate_response_returns by blast
    then show ?thesis
      using gate None
      by (simp add: chat_def chat_with_generation chat_try_eq Let_def on_generation_path_def
            store_exchange_history)
  next
    case (Some answer)
    then have "answer \<noteq> []"
      using get_direct_answer_nonempty [of settings message] by auto
    then show ?thesis
      using gate Some
      by (simp add: chat_def chat_with_direct on_generation_path_def)
  qed
qed

lemma serve_history:
  assumes "get_conversation_history self cid = last_n 10 turns"
  shows "get_conversation_history (serve settings self r) cid
           = last_n 10 (log_request settings self cid r turns)"
proof (cases r)
  case (Chat_request env message given history ctx)
  then show ?thesis
    using assms by (simp add: chat_history Let_def last_n_append_last_n)
next
  case (Clear_request c)
  then show ?thesis
    using assms by (simp add: clear_conversation_history last_n_def)
qed

lemma serve_all_history:
  assumes "get_conversation_history self cid = last_n 10 turns"
  shows "get_conversation_history (serve_all settings self rs) cid
           = last_n 10 (appended_turns settings self cid turns rs)"
  using assms
proof (induction rs arbitrary: self turns)
  case Nil
  then show ?case by simp
next
  case (Cons r rs)
  have "get_conversation_history (serve settings self r) cid
           = last_n 10 (log_request settings self cid r turns)"
    using Cons.prems by (rule serve_history)
  then show ?case
    using Cons.IH by simp
qed

section \<open>The claims\<close>

subsection \<open>C1: restricted topics\<close>

text \<open>
  Claim C1. When \<open>r\<close> is the first of the configured restricted topics that occurs in
  the message, letter case ignored, \<^verbatim>\<open>chat\<close> answers with the redirect sentence for
  \<open>r\<close>, labelled \<^verbatim>\<open>business_rules\<close> and with no tokens, and leaves the service, and so
  the memory of every conversation, as it was.
\<close>

theorem restricted_topic_redirect:
  assumes "restricted_topics (business_config self) = before @ r # after"
    and "\<forall>q \<in> set before. \<not> (\<exists>pre post. lower message = pre @ lower q @ post)"
    and "lower message = pre @ lower r @ post"
  shows "response (fst (chat settings env self message given history context))
           = ''I can't provide '' @ r @ ''. Let me help you with '' @ type (business_config self)
               @ '' related questions instead.''
       \<and> model_used (fst (chat settings env self message given history context))
           = ''business_rules''
       \<and> tokens_used (fst (chat settings env self message given history context)) = 0
       \<and> snd (chat settings env self message given history context) = self"
proof -
  have "py_in (lower r) (lower message)"
    using assms(3) py_in_iff by blast
  moreover have "\<forall>q \<in> set before. \<not> py_in (lower q) (lower message)"
    using assms(2) by (simp add: py_in_iff)
  ultimately have "is_on_topic self message
      = (False, Some (redirect_text r (type (business_config self))))"
    using assms(1) by (simp add: is_on_topic_def check_restricted_first)
  then show ?thesis
    by (simp add: chat_def chat_with_rejected redirect_text_def)
qed

text \<open>
  The second restricted topic of the default settings occurs in the message, the first
  does not.
\<close>

theorem restricted_topic_redirect_witness:
  "response (fst (chat default_settings answering_env (new_service default_settings)
       ''Some legal advice, please'' None None None))
     = ''I can't provide legal advice. Let me help you with customer service related questions instead.''
   \<and> model_used (fst (chat default_settings answering_env (new_service default_settings)
       ''Some legal advice, please'' None None None)) = ''business_rules''
   \<and> tokens_used (fst (chat default_settings answering_env (new_service default_settings)
       ''Some legal advice, please'' None None None)) = 0
   \<and> snd (chat default_settings answering_env (new_service default_settings)
       ''Some legal advice, please'' None None None) = new_service default_settings"
proof -
  have topics: "restricted_topics (business_config (new_service default_settings))
      = [''medical advice''] @ ''legal advice'' # [''financial advice'', ''personal information'']"
    by code_simp
  have "\<not> py_in (lower ''medical advice'') (lower ''Some legal advice, please'')"
    by code_simp
  then have earlier: "\<forall>q \<in> set [''medical advice''].
      \<not> (\<exists>pre post. lower ''Some legal advice, please'' = pre @ lower q @ post)"
    by (simp add: py_in_iff)
  have found: "lower ''Some legal advice, please'' = ''some '' @ lower ''legal advice'' @ '', please''"
    by code_simp
  have business: "type (business_config (new_service default_settings)) = ''customer service''"
    by code_simp
  show ?thesis
    using restricted_topic_redirect [OF topics earlier found, of default_settings answering_env
        None None None] business
    by simp
qed

subsection \<open>C2: the history keeps the last ten turns\<close>

text \<open>
  Claim C2. For a service started without conversations and any sequence of requests,
  the history of a conversation id is the last ten of the turns appended for it, in the
  order in which they were appended, and so it never has more than ten turns.
\<close>

theorem history_keeps_last_ten:
  "get_conversation_history (serve_all settings (new_service settings) requests) cid
     = last_n 10 (appended_turns settings (new_service settings) cid [] requests)
   \<and> length (get_conversation_history (serve_all settings (new_service settings) requests) cid)
       \<le> 10"
proof -
  have "get_conversation_history (new_service settings) cid = last_n 10 []"
    by (simp add: new_service_def get_conversation_history_def last_n_def)
  then have "get_conversation_history (serve_all settings (new_service settings) requests) cid
     = last_n 10 (appended_turns settings (new_service settings) cid [] requests)"
    by (rule serve_all_history)
  then show ?thesis
    by (simp add: last_n_length)
qed

text \<open>
  Six calls on the generation path append twelve turns; the first exchange is gone.
\<close>

theorem history_keeps_last_ten_witness:
  "map content (get_conversation_history
       (serve_all default_settings (new_service default_settings) six_requests) ''c1'')
     = [''two'', ''Glad to help you today.'', ''three'', ''Glad to help you today.'',
        ''four'', ''Glad to help you today.'', ''five'', ''Glad to help you today.'',
        ''six'', ''Glad to help you today.'']
   \<and> get_conversation_history
       (serve_all default_settings (new_service default_settings) six_requests) ''c1''
     = last_n 10 (appended_turns default_settings (new_service default_settings) ''c1'' []
         six_requests)
   \<and> length (appended_turns default_settings (new_service default_settings) ''c1'' []
         six_requests) = 12"
proof -
  have kept: "map content (get_conversation_history
       (serve_all default_settings (new_service default_settings) six_requests) ''c1'')
     = [''two'', ''Glad to help you today.'', ''three'', ''Glad to help you today.'',
        ''four'', ''Glad to help you today.'', ''five'', ''Glad to help you today.'',
        ''six'', ''Glad to help you today.'']"
    by code_simp
  have appended: "length (appended_turns default_settings (new_service default_settings)
      ''c1'' [] six_requests) = 12"
    by code_simp
  show ?thesis
    using kept appended history_keeps_last_ten [of default_settings six_requests "''c1''"]
    by simp
qed

subsection \<open>C3: failures of the generation\<close>

text \<open>
  Claim C3, amended. On the generation path \<^verbatim>\<open>_generate_response\<close> never raises;
  an exception that reaches the handler of \<^verbatim>\<open>chat\<close> gives the apology labelled
  \<^verbatim>\<open>error_handler\<close>, no tokens and an unchanged service; and when the pipeline
  raises, \<^verbatim>\<open>_generate_response\<close> has already turned the failure into its own
  sentence, which \<^verbatim>\<open>chat\<close> cleans, returns under the name of the model with its
  word count and appends to the memory together with the message. As \<^const>\<open>chat\<close> is a
  function to results, no exception leaves it.
\<close>

theorem generation_failure_recovery:
  assumes "fst (is_on_topic self message)"
    and "get_direct_answer settings message = None"
  shows "(\<forall>prompt. \<exists>generated. generate_response env prompt = Inr generated)
   \<and> (\<forall>generate e. (\<forall>prompt. generate prompt = Inl e) \<longrightarrow>
        chat_with generate settings env self message given history context =
          (\<lparr> response = ''I apologize, but I'm experiencing technical difficulties. Please try again in a moment.'',
             conversation_id = (case given of None \<Rightarrow> uuid4 env
                                | Some c \<Rightarrow> if c = [] then uuid4 env else c),
             model_used = ''error_handler'',
             processing_time = time_end env - time_start env,
             tokens_used = 0 \<rparr>, self))
   \<and> ((\<forall>prompt. pipeline env prompt = Pipeline_raises) \<longrightarrow>
        (let cid = (case given of None \<Rightarrow> uuid4 env
                    | Some c \<Rightarrow> if c = [] then uuid4 env else c);
             cleaned = clean_response
               ''I apologize, but I'm having trouble processing your request right now.'' message
         in chat settings env self message given history context =
              (\<lparr> response = cleaned,
                 conversation_id = cid,
                 model_used = model_name self,
                 processing_time = time_end env - time_start env,
                 tokens_used = length (py_split cleaned) \<rparr>,
               store_exchange self cid message cleaned)
            \<and> get_conversation_history (snd (chat settings env self message given history context)) cid
                = last_n 10 (get_conversation_history self cid
                    @ [\<lparr>role = ''user'', content = message, timestamp = None\<rparr>,
                       \<lparr>role = ''assistant'', content = cleaned, timestamp = None\<rparr>])))"
proof (intro conjI allI impI)
  fix prompt
  show "\<exists>generated. generate_response env prompt = Inr generated"
    by (rule generate_response_returns)
next
  fix generate :: "string \<Rightarrow> py_exception + string" and e
  assume "\<forall>prompt. generate prompt = Inl e"
  then show "chat_with generate settings env self message given history context =
          (\<lparr> response = ''I apologize, but I'm experiencing technical difficulties. Please try again in a moment.'',
             conversation_id = (case given of None \<Rightarrow> uuid4 env
                                | Some c \<Rightarrow> if c = [] then uuid4 env else c),
             model_used = ''error_handler'',
             processing_time = time_end env - time_start env,
             tokens_used = 0 \<rparr>, self)"
    by (simp add: chat_with_generation [OF assms] chat_try_eq Let_def)
next
  assume raises: "\<forall>prompt. pipeline env prompt = Pipeline_raises"
  have gen: "generate_response env prompt =
      Inr ''I apologize, but I'm having trouble processing your request right now.''" for prompt
    using raises by (simp add: generate_response_raises)
  show "let cid = (case given of None \<Rightarrow> uuid4 env
                    | Some c \<Rightarrow> if c = [] then uuid4 env else c);
             cleaned = clean_response
               ''I apologize, but I'm having trouble processing your request right now.'' message
         in chat settings env self message given history context =
              (\<lparr> response = cleaned,
                 conversation_id = cid,
                 model_used = model_name self,
                 processing_time = time_end env - time_start env,
                 tokens_used = length (py_split cleaned) \<rparr>,
               store_exchange self cid message cleaned)
            \<and> get_conversation_history (snd (chat settings env self message given history context)) cid
                = last_n 10 (get_conversation_history self cid
                    @ [\<lparr>role = ''user'', content = message, timestamp = None\<rparr>,
                       \<lparr>role = ''assistant'', content = cleaned, timestamp = None\<rparr>])"
    by (simp add: chat_def chat_with_generation [OF assms] chat_try_eq gen
          store_exchange_history Let_def)
qed

theorem generation_failure_recovery_witness:
  "fst (is_on_topic (new_service default_settings) ''Hello'')
   \<and> get_direct_answer default_settings ''Hello'' = None
   \<and> (\<forall>prompt. pipeline failing_env prompt = Pipeline_raises)
   \<and> chat_with (\<lambda>prompt. Inl Exception) default_settings failing_env
        (new_service default_settings) ''Hello'' (Some ''c1'') None None
       = (\<lparr> response = ''I apologize, but I'm experiencing technical difficulties. Please try again in a moment.'',
             conversation_id = ''c1'',
             model_used = ''error_handler'',
             processing_time = 1,
             tokens_used = 0 \<rparr>, new_service default_settings)
   \<and> fst (chat default_settings failing_env (new_service default_settings)
        ''Hello'' (Some ''c1'') None None)
       = \<lparr> response = ''I apologize, but I'm having trouble processing your request right now.'',
           conversation_id = ''c1'',
           model_used = ''microsoft/DialoGPT-medium'',
           processing_time = 1,
           tokens_used = 11 \<rparr>
   \<and> get_conversation_history (snd (chat default_settings failing_env
        (new_service default_settings) ''Hello'' (Some ''c1'') None None)) ''c1''
       = [\<lparr>role = ''user'', content = ''Hello'', timestamp = None\<rparr>,
          \<lparr>role = ''assistant'',
           content = ''I apologize, but I'm having trouble processing your request right now.'',
           timestamp = None\<rparr>]"
proof -
  have gate: "fst (is_on_topic (new_service default_settings) ''Hello'')"
    by code_simp
  have direct: "get_direct_answer default_settings ''Hello'' = None"
    by code_simp
  have raises: "\<forall>prompt. pipeline failing_env prompt = Pipeline_raises"
    by (simp add: failing_env_def)
  have cleaned: "clean_response
      ''I apologize, but I'm having trouble processing your request right now.'' ''Hello''
      = ''I apologize, but I'm having trouble processing your request right now.''"
    by code_simp
  have words: "length (py_split
      ''I apologize, but I'm having trouble processing your request right now.'') = 11"
    by code_simp
  have clock: "time_end failing_env - time_start failing_env = 1"
    by (simp add: failing_env_def)
  have model: "model_name (new_service default_settings) = ''microsoft/DialoGPT-medium''"
    by (simp add: new_service_def default_settings_def)
  have empty: "get_conversation_history (new_service default_settings) ''c1'' = []"
    by (simp add: new_service_def get_conversation_history_def)
  note recovery = generation_failure_recovery [OF gate direct, of failing_env "Some ''c1''" None None]
  have handler: "chat_with (\<lambda>prompt. Inl Exception) default_settings failing_env
        (new_service default_settings) ''Hello'' (Some ''c1'') None None
       = (\<lparr> response = ''I apologize, but I'm experiencing technical difficulties. Please try again in a moment.'',
             conversation_id = ''c1'',
             model_used = ''error_handler'',
             processing_time = 1,
             tokens_used = 0 \<rparr>, new_service default_settings)"
    using recovery [THEN conjunct2, THEN conjunct1, rule_format,
        of "\<lambda>prompt. Inl Exception" Exception] clock
    by simp
  have generated: "fst (chat default_settings failing_env (new_service default_settings)
        ''Hello'' (Some ''c1'') None None)
       = \<lparr> response = ''I apologize, but I'm having trouble processing your request right now.'',
           conversation_id = ''c1'',
           model_used = ''microsoft/DialoGPT-medium'',
           processing_time = 1,
           tokens_used = 11 \<rparr>
   \<and> get_conversation_history (snd (chat default_settings failing_env
        (new_service default_settings) ''Hello'' (Some ''c1'') None None)) ''c1''
       = [\<lparr>role = ''user'', content = ''Hello'', timestamp = None\<rparr>,
          \<lparr>role = ''assistant'',
           content = ''I apologize, but I'm having trouble processing your request right now.'',
           timestamp = None\<rparr>]"
    using recovery [THEN conjunct2, THEN conjunct2, THEN mp, OF raises]
    by (simp add: Let_def cleaned words clock model empty last_n_def store_exchange_history)
  show ?thesis
    using gate direct raises handler generated by blast
qed

text \<open>
  The claim as stated fails when the pipeline raises: the result is not labelled
  \<^verbatim>\<open>error_handler\<close>, its tokens are not zero and the memory of the conversation has
  changed.
\<close>

theorem generation_failure_counterexample:
  "model_used (fst (chat default_settings failing_env (new_service default_settings)
       ''Hello'' (Some ''c1'') None None)) \<noteq> ''error_handler''
   \<and> tokens_used (fst (chat default_settings failing_env (new_service default_settings)
       ''Hello'' (Some ''c1'') None None)) \<noteq> 0
   \<and> get_conversation_history (snd (chat default_settings failing_env
        (new_service default_settings) ''Hello'' (Some ''c1'') None None)) ''c1''
      \<noteq> get_conversation_history (new_service default_settings) ''c1''"
  by code_simp

subsection \<open>C4: direct answers\<close>

text \<open>
  Claim C4, amended. When the topic check accepts the message, a keyword of a topic
  occurs in the lower-cased message and an anchor of that topic in the lower-cased
  details, \<^verbatim>\<open>chat\<close> returns the direct answer labelled \<^verbatim>\<open>business_knowledge\<close>, with
  the number of words of the response as tokens, and leaves the service as it was.
\<close>

theorem direct_answer_result:
  assumes "fst (is_on_topic self message)"
    and "(topic, keywords) \<in> set patterns"
    and "keyword \<in> set keywords"
    and "py_in keyword (lower message)"
    and "anchor_present topic (BUSINESS_DETAILS settings)"
  shows "model_used (fst (chat settings env self message given history context))
           = ''business_knowledge''
       \<and> get_direct_answer settings message
           = Some (response (fst (chat settings env self message given history context)))
       \<and> tokens_used (fst (chat settings env self message given history context))
           = length (py_split (response (fst (chat settings env self message given history context))))
       \<and> snd (chat settings env self message given history context) = self"
proof -
  have "list_ex (\<lambda>k. py_in k (lower message)) (snd (topic, keywords))"
    using assms(3,4) by (auto simp: list_ex_iff)
  moreover have "topic_answer (fst (topic, keywords)) (BUSINESS_DETAILS settings) \<noteq> None"
    using assms(5) by (simp add: topic_answer_ready)
  ultimately have "scan_patterns patterns (lower message) (BUSINESS_DETAILS settings) \<noteq> None"
    by (rule scan_patterns_ready [OF assms(2)])
  then obtain answer where answer: "get_direct_answer settings message = Some answer"
    by (auto simp: get_direct_answer_def)
  then have "answer \<noteq> []"
    using get_direct_answer_nonempty [of settings message] by auto
  then show ?thesis
    using answer by (simp add: chat_def chat_with_direct [OF assms(1) answer])
qed

theorem direct_answer_result_witness:
  "fst (is_on_topic (new_service bakery_settings) ''Where is your location?'')
   \<and> (''location'', [''location'', ''address'', ''where are you'', ''where located''])
        \<in> set patterns
   \<and> py_in ''location'' (lower ''Where is your location?'')
   \<and> anchor_present ''location'' (BUSINESS_DETAILS bakery_settings)
   \<and> fst (chat bakery_settings answering_env (new_service bakery_settings)
        ''Where is your location?'' (Some ''c1'') None None)
       = \<lparr> response = ''We're located at: 5 Main St. Feel free to visit us!'',
           conversation_id = ''c1'',
           model_used = ''business_knowledge'',
           processing_time = 1,
           tokens_used = 11 \<rparr>
   \<and> snd (chat bakery_settings answering_env (new_service bakery_settings)
        ''Where is your location?'' (Some ''c1'') None None) = new_service bakery_settings"
proof -
  have gate: "fst (is_on_topic (new_service bakery_settings) ''Where is your location?'')"
    by code_simp
  have entry: "(''location'', [''location'', ''address'', ''where are you'', ''where located''])
        \<in> set patterns"
    by (simp add: patterns_def)
  have keyword: "''location'' \<in> set [''location'', ''address'', ''where are you'', ''where located'']"
    by simp
  have found: "py_in ''location'' (lower ''Where is your location?'')"
    by code_simp
  have anchor: "anchor_present ''location'' (BUSINESS_DETAILS bakery_settings)"
    by code_simp
  have result: "fst (chat bakery_settings answering_env (new_service bakery_settings)
        ''Where is your location?'' (Some ''c1'') None None)
       = \<lparr> response = ''We're located at: 5 Main St. Feel free to visit us!'',
           conversation_id = ''c1'',
           model_used = ''business_knowledge'',
           processing_time = 1,
           tokens_used = 11 \<rparr>"
    by code_simp
  show ?thesis
    using gate entry found anchor result
      direct_answer_result [OF gate entry keyword found anchor, of answering_env "Some ''c1''"
        None None]
    by simp
qed

text \<open>
  The claim as stated fails for a message that also contains a restricted topic: the
  topic check comes first and the answer is the redirect.
\<close>

theorem direct_answer_counterexample:
  "(''hours'', [''hours'', ''open'', ''close'', ''when are you open'', ''what time''])
      \<in> set patterns
   \<and> py_in ''hours'' (lower ''What are your hours for medical advice?'')
   \<and> anchor_present ''hours'' (BUSINESS_DETAILS hours_settings)
   \<and> model_used (fst (chat hours_settings answering_env (new_service hours_settings)
         ''What are your hours for medical advice?'' None None None))
       \<noteq> ''business_knowledge''"
  by code_simp

subsection \<open>C5: the fact extractor\<close>

text \<open>
  Claim C5, amended. For ASCII details, the extractor answers for the first topic, in
  the declared order, that has a keyword in the lower-cased message and an anchor in the
  lower-cased details, with the reply of that topic as \<^const>\<open>reply_spec\<close> gives it; a
  topic whose keyword matches and whose anchor is absent is passed over; and the result
  is \<^term>\<open>None\<close> exactly when no topic is ready. Details outside ASCII, where the
  lower-cased copy may have another length and the index of the anchor may point
  elsewhere in the details, are left out.
\<close>

theorem get_direct_answer_first_ready_topic:
  assumes "is_ascii (BUSINESS_DETAILS settings)"
  shows "get_direct_answer settings message = extract_spec (BUSINESS_DETAILS settings) message
   \<and> (get_direct_answer settings message = None
        \<longleftrightarrow> (\<forall>entry \<in> set patterns. \<not> topic_ready (BUSINESS_DETAILS settings) message entry))
   \<and> (\<forall>before entry after.
         patterns = before @ entry # after
         \<and> (\<forall>e \<in> set before. \<not> topic_ready (BUSINESS_DETAILS settings) message e)
         \<and> topic_ready (BUSINESS_DETAILS settings) message entry
         \<longrightarrow> get_direct_answer settings message
               = Some (reply_spec (fst entry) (BUSINESS_DETAILS settings)))"
proof (intro conjI allI impI)
  note refined = get_direct_answer_extract [OF assms]
  show "get_direct_answer settings message = extract_spec (BUSINESS_DETAILS settings) message"
    by (rule refined)
  have "extract_spec (BUSINESS_DETAILS settings) message = None
      \<longleftrightarrow> List.find (topic_ready (BUSINESS_DETAILS settings) message) patterns = None"
    by (simp add: extract_spec_def split: option.splits)
  then show "get_direct_answer settings message = None
        \<longleftrightarrow> (\<forall>entry \<in> set patterns. \<not> topic_ready (BUSINESS_DETAILS settings) message entry)"
    unfolding refined find_None_iff by blast
  fix before entry after
  assume first: "patterns = before @ entry # after
         \<and> (\<forall>e \<in> set before. \<not> topic_ready (BUSINESS_DETAILS settings) message e)
         \<and> topic_ready (BUSINESS_DETAILS settings) message entry"
  then have "List.find (topic_ready (BUSINESS_DETAILS settings) message) patterns = Some entry"
    using find_first [of before "topic_ready (BUSINESS_DETAILS settings) message" entry after]
    by simp
  then show "get_direct_answer settings message
               = Some (reply_spec (fst entry) (BUSINESS_DETAILS settings))"
    by (simp add: refined extract_spec_def)
qed

theorem get_direct_answer_first_ready_topic_witness:
  "is_ascii (BUSINESS_DETAILS contact_settings)
   \<and> is_ascii (BUSINESS_DETAILS bakery_settings)
   \<and> patterns =
     [(''hours'', [''hours'', ''open'', ''close'', ''when are you open'', ''what time'']),
      (''location'', [''location'', ''address'', ''where are you'', ''where located''])]
     @ (''contact'', [''contact'', ''phone'', ''email'', ''call'', ''reach''])
     # [(''pricing'', [''price'', ''cost'', ''how much'', ''pricing'', ''plan'']),
        (''shipping'', [''shipping'', ''delivery'', ''ship'']),
        (''returns'', [''return'', ''refund'', ''money back'']),
        (''services'', [''service'', ''what do you do'', ''what do you offer''])]
   \<and> keyword_match [''hours'', ''open'', ''close'', ''when are you open'', ''what time'']
       ''When do you open? What is your phone number?''
   \<and> \<not> anchor_present ''hours'' (BUSINESS_DETAILS contact_settings)
   \<and> topic_ready (BUSINESS_DETAILS contact_settings)
       ''When do you open? What is your phone number?''
       (''contact'', [''contact'', ''phone'', ''email'', ''call'', ''reach''])
   \<and> get_direct_answer contact_settings ''When do you open? What is your phone number?''
       = Some ''You can reach us at: Phone 555-1234. We're here to help!''
   \<and> get_direct_answer contact_settings ''What is your address?'' = None
   \<and> get_direct_answer bakery_settings ''What is your address?''
       = Some ''We're located at: 5 Main St. Feel free to visit us!''
   \<and> get_direct_answer bakery_settings ''Can I get a refund?''
       = Some ''Our return policy: Returns within 30 days. Let me know if you have questions!''"
proof -
  let ?message = "''When do you open? What is your phone number?''"
  let ?details = "BUSINESS_DETAILS contact_settings"
  have ascii: "is_ascii (BUSINESS_DETAILS contact_settings)"
    by code_simp
  have ascii': "is_ascii (BUSINESS_DETAILS bakery_settings)"
    by code_simp
  have order: "patterns =
     [(''hours'', [''hours'', ''open'', ''close'', ''when are you open'', ''what time'']),
      (''location'', [''location'', ''address'', ''where are you'', ''where located''])]
     @ (''contact'', [''contact'', ''phone'', ''email'', ''call'', ''reach''])
     # [(''pricing'', [''price'', ''cost'', ''how much'', ''pricing'', ''plan'']),
        (''shipping'', [''shipping'', ''delivery'', ''ship'']),
        (''returns'', [''return'', ''refund'', ''money back'']),
        (''services'', [''service'', ''what do you do'', ''what do you offer''])]"
    by (simp add: patterns_def)
  have keyword: "keyword_match [''hours'', ''open'', ''close'', ''when are you open'', ''what time'']
       ?message"
    by code_simp
  have absent: "\<not> anchor_present ''hours'' ?details"
    by code_simp
  have hours: "\<not> topic_ready ?details ?message
      (''hours'', [''hours'', ''open'', ''close'', ''when are you open'', ''what time''])"
    by code_simp
  have location: "\<not> topic_ready ?details ?message
      (''location'', [''location'', ''address'', ''where are you'', ''where located''])"
    by code_simp
  have contact: "topic_ready ?details ?message
      (''contact'', [''contact'', ''phone'', ''email'', ''call'', ''reach''])"
    by code_simp
  have reply: "reply_spec ''contact'' ?details
      = ''You can reach us at: Phone 555-1234. We're here to help!''"
    by code_simp
  have first: "get_direct_answer contact_settings ?message
      = Some (reply_spec ''contact'' ?details)"
    using get_direct_answer_first_ready_topic [OF ascii, where message = ?message,
        THEN conjunct2, THEN conjunct2, rule_format,
        of "[(''hours'', [''hours'', ''open'', ''close'', ''when are you open'', ''what time'']),
            (''location'', [''location'', ''address'', ''where are you'', ''where located''])]"
           "(''contact'', [''contact'', ''phone'', ''email'', ''call'', ''reach''])"]
      order hours location contact
    by simp
  have none: "\<forall>entry \<in> set patterns. \<not> topic_ready ?details ''What is your address?'' entry"
    by code_simp
  have unanswered: "get_direct_answer contact_settings ''What is your address?'' = None"
    using get_direct_answer_first_ready_topic [OF ascii, where message = "''What is your address?''"]
      none by blast
  have c: "extract_spec (BUSINESS_DETAILS bakery_settings) ''What is your address?''
       = Some ''We're located at: 5 Main St. Feel free to visit us!''"
    by code_simp
  have d: "extract_spec (BUSINESS_DETAILS bakery_settings) ''Can I get a refund?''
       = Some ''Our return policy: Returns within 30 days. Let me know if you have questions!''"
    by code_simp
  have others: "get_direct_answer bakery_settings ''What is your address?''
       = Some ''We're located at: 5 Main St. Feel free to visit us!''
     \<and> get_direct_answer bakery_settings ''Can I get a refund?''
       = Some ''Our return policy: Returns within 30 days. Let me know if you have questions!''"
    using c d
      get_direct_answer_first_ready_topic [OF ascii', where message = "''What is your address?''"]
      get_direct_answer_first_ready_topic [OF ascii', where message = "''Can I get a refund?''"]
    by simp
  show ?thesis
    using ascii ascii' order keyword absent contact first reply unanswered others
    by (simp only: simp_thms)
qed

text \<open>
  The claim as stated fails for the contact topic: the piece for the phone ends at the
  comma, so the reply does not embed the text from the anchor to the next full stop.
\<close>

theorem get_direct_answer_counterexample:
  "get_direct_answer contact_settings ''phone''
     = Some ''You can reach us at: Phone 555-1234. We're here to help!''
   \<and> py_strip (sentence_from (anchor_index ''phone'' (BUSINESS_DETAILS contact_settings))
        (BUSINESS_DETAILS contact_settings)) = ''Phone 555-1234, open daily''
   \<and> \<not> py_in ''Phone 555-1234, open daily''
         ''You can reach us at: Phone 555-1234. We're here to help!''"
  by code_simp

subsection \<open>C6: the business hours scenario\<close>

text \<open>
  Claim C6, amended. When the details contain \<^verbatim>\<open>Hours: 9am-6pm Mon-Fri.\<close>, the text
  before it is ASCII and has no earlier occurrence of \<^verbatim>\<open>hours:\<close> in any letter case,
  and the topic check accepts the message \<^verbatim>\<open>What are your business hours?\<close>, the
  response begins with \<^verbatim>\<open>Our Hours: 9am-6pm Mon-Fri\<close>, in the letter case of the
  details. A text before the sentence that is not ASCII, where the index found in the
  lower-cased copy need not be the index of the sentence, is left out.
\<close>

theorem business_hours_scenario:
  assumes "BUSINESS_DETAILS settings = pre @ ''Hours: 9am-6pm Mon-Fri.'' @ post"
    and "is_ascii pre"
    and "\<not> py_in ''hours:'' (lower pre @ ''hours'')"
    and "fst (is_on_topic self ''What are your business hours?'')"
  shows "response (fst (chat settings env self ''What are your business hours?'' given history
           context))
         = ''Our Hours: 9am-6pm Mon-Fri. Is there anything else you'd like to know?''
       \<and> startswith (response (fst (chat settings env self ''What are your business hours?''
           given history context))) ''Our Hours: 9am-6pm Mon-Fri''"
proof -
  let ?details = "BUSINESS_DETAILS settings"
  have low: "lower ''Hours: 9am-6pm Mon-Fri.'' = ''hours: 9am-6pm mon-fri.''"
    by code_simp
  have lowered: "lower ?details = lower pre @ (''hours: 9am-6pm mon-fri.'' @ lower post)"
    using low by (simp add: assms(1) lower_def)
  have first: "find_offset ''hours:'' (lower ?details) = Some (length (lower pre))"
    unfolding lowered using assms(3) by (intro find_offset_first) simp_all
  then have present: "py_in ''hours:'' (lower ?details)"
    by (simp add: py_in_find_offset)
  have index: "anchor_index ''hours:'' ?details = length pre"
    using first lower_keeps_length [OF assms(2)] by (simp add: anchor_index_def)
  have "length pre \<le> length ?details"
    by (simp add: assms(1))
  then have inside: "anchor_index ''hours:'' ?details \<le> length ?details"
    by (simp only: index)
  have sentence: "sentence_from (length pre) ?details = ''Hours: 9am-6pm Mon-Fri''"
    by (simp add: sentence_from_def assms(1))
  have trimmed: "py_strip ''Hours: 9am-6pm Mon-Fri'' = ''Hours: 9am-6pm Mon-Fri''"
    by code_simp
  have reply: "topic_answer ''hours'' ?details
      = Some ''Our Hours: 9am-6pm Mon-Fri. Is there anything else you'd like to know?''"
    using present
    by (simp add: topic_answer_hours [OF inside] reply_spec_def index sentence trimmed)
  have keyword: "list_ex (\<lambda>keyword. py_in keyword (lower ''What are your business hours?''))
      [''hours'', ''open'', ''close'', ''when are you open'', ''what time'']"
    by code_simp
  have "scan_patterns patterns (lower ''What are your business hours?'') ?details
      = Some ''Our Hours: 9am-6pm Mon-Fri. Is there anything else you'd like to know?''"
    unfolding patterns_def using keyword reply by (simp only: scan_patterns.simps if_True option.case)
  then have answer: "get_direct_answer settings ''What are your business hours?''
      = Some ''Our Hours: 9am-6pm Mon-Fri. Is there anything else you'd like to know?''"
    by (simp add: get_direct_answer_def)
  have "response (fst (chat settings env self ''What are your business hours?'' given history
           context))
         = ''Our Hours: 9am-6pm Mon-Fri. Is there anything else you'd like to know?''"
    by (simp add: chat_def chat_with_direct [OF assms(4) answer])
  then show ?thesis by simp
qed

theorem business_hours_scenario_witness:
  "BUSINESS_DETAILS bakery_settings
     = ''We are a bakery. '' @ ''Hours: 9am-6pm Mon-Fri.''
         @ '' Location: 5 Main St. Returns within 30 days''
   \<and> is_ascii ''We are a bakery. ''
   \<and> \<not> py_in ''hours:'' (lower ''We are a bakery. '' @ ''hours'')
   \<and> fst (is_on_topic (new_service bakery_settings) ''What are your business hours?'')
   \<and> response (fst (chat bakery_settings answering_env (new_service bakery_settings)
         ''What are your business hours?'' None None None))
       = ''Our Hours: 9am-6pm Mon-Fri. Is there anything else you'd like to know?''"
proof -
  have details: "BUSINESS_DETAILS bakery_settings
     = ''We are a bakery. '' @ ''Hours: 9am-6pm Mon-Fri.''
         @ '' Location: 5 Main St. Returns within 30 days''"
    by (simp add: bakery_settings_def)
  have ascii: "is_ascii ''We are a bakery. ''"
    by code_simp
  have before: "\<not> py_in ''hours:'' (lower ''We are a bakery. '' @ ''hours'')"
    by code_simp
  have gate: "fst (is_on_topic (new_service bakery_settings) ''What are your business hours?'')"
    by code_simp
  show ?thesis
    using details ascii before gate
      business_hours_scenario [OF details ascii before gate, of answering_env None None None]
    by blast
qed

text \<open>
  The claim as stated fails: the response does not begin with the lower-case
  \<^verbatim>\<open>Our hours: 9am-6pm Mon-Fri\<close>.
\<close>

theorem business_hours_counterexample:
  "py_in ''Hours: 9am-6pm Mon-Fri.'' (BUSINESS_DETAILS hours_settings)
   \<and> \<not> startswith
         (response (fst (chat hours_settings answering_env (new_service hours_settings)
            ''What are your business hours?'' None None None)))
         ''Our hours: 9am-6pm Mon-Fri''"
  by code_simp

subsection \<open>C7: the response cleaner\<close>

text \<open>
  Claim C7, amended. An empty text of the model is answered by a first fixed sentence.
  Otherwise the cleaner removes the occurrences of the message and trims, cuts the
  labels \<^verbatim>\<open>ASSISTANT:\<close>, \<^verbatim>\<open>Assistant:\<close>, \<^verbatim>\<open>AI:\<close> and \<^verbatim>\<open>Bot:\<close> from the start, one
  after the other in this order and trimming after each, replaces an empty text by a
  second fixed sentence and cuts a text of more than 500 characters to 500 followed by
  three dots. The result is never empty and never longer than 500 characters and the
  three dots.
\<close>

theorem clean_response_steps_and_bounds:
  "clean_response raw message =
     (if raw = [] then
        ''I'm not sure how to respond to that. Could you please rephrase your question?''
      else truncate_500 (or_fallback
             (strip_label ''Bot:'' (strip_label ''AI:'' (strip_label ''Assistant:''
               (strip_label ''ASSISTANT:'' (py_strip (py_replace raw message []))))))))
   \<and> clean_response raw message \<noteq> []
   \<and> length (clean_response raw message) \<le> 500 + length ''...''"
proof (intro conjI)
  show "clean_response raw message =
     (if raw = [] then
        ''I'm not sure how to respond to that. Could you please rephrase your question?''
      else truncate_500 (or_fallback
             (strip_label ''Bot:'' (strip_label ''AI:'' (strip_label ''Assistant:''
               (strip_label ''ASSISTANT:'' (py_strip (py_replace raw message []))))))))"
    by (rule clean_response_steps)
  show "clean_response raw message \<noteq> []"
    by (simp add: clean_response_steps truncate_or_fallback_nonempty)
  have "length (clean_response raw message) \<le> 503"
    using truncate_500_length by (simp add: clean_response_steps)
  then show "length (clean_response raw message) \<le> 500 + length ''...''"
    by simp
qed

theorem clean_response_steps_and_bounds_witness:
  "clean_response ''hello '' ''x'' = ''hello''
   \<and> clean_response '' AI: ASSISTANT: fine'' ''x'' = ''ASSISTANT: fine''
   \<and> clean_response ''Bot:'' ''x'' = ''I understand your question. How can I help you further?''
   \<and> clean_response [] ''x''
       = ''I'm not sure how to respond to that. Could you please rephrase your question?''
   \<and> length (clean_response (replicate 600 (CHR ''a'')) ''x'') = 503"
proof -
  have a: "truncate_500 (or_fallback
             (strip_label ''Bot:'' (strip_label ''AI:'' (strip_label ''Assistant:''
               (strip_label ''ASSISTANT:'' (py_strip (py_replace ''hello '' ''x'' []))))))) = ''hello''"
    by code_simp
  have b: "truncate_500 (or_fallback
             (strip_label ''Bot:'' (strip_label ''AI:'' (strip_label ''Assistant:''
               (strip_label ''ASSISTANT:''
                 (py_strip (py_replace '' AI: ASSISTANT: fine'' ''x'' [])))))))
             = ''ASSISTANT: fine''"
    by code_simp
  have c: "truncate_500 (or_fallback
             (strip_label ''Bot:'' (strip_label ''AI:'' (strip_label ''Assistant:''
               (strip_label ''ASSISTANT:'' (py_strip (py_replace ''Bot:'' ''x'' [])))))))
             = ''I understand your question. How can I help you further?''"
    by code_simp
  have d: "length (truncate_500 (or_fallback
             (strip_label ''Bot:'' (strip_label ''AI:'' (strip_label ''Assistant:''
               (strip_label ''ASSISTANT:''
                 (py_strip (py_replace (replicate 600 (CHR ''a'')) ''x'' [])))))))) = 503"
    by code_simp
  have e: "replicate 600 (CHR ''a'') \<noteq> []"
    by code_simp
  show ?thesis
    using a b c d e
      clean_response_steps_and_bounds [of "''hello ''" "''x''"]
      clean_response_steps_and_bounds [of "'' AI: ASSISTANT: fine''" "''x''"]
      clean_response_steps_and_bounds [of "''Bot:''" "''x''"]
      clean_response_steps_and_bounds [of "[]" "''x''"]
      clean_response_steps_and_bounds [of "replicate 600 (CHR ''a'')" "''x''"]
    by simp
qed

text \<open>
  The claim as stated fails where none of its four steps applies: the message does not
  occur in the text, no label starts it, it is neither empty nor too long, and still
  the cleaner changes it, because it trims white space.
\<close>

theorem clean_response_counterexample:
  "''hello '' \<noteq> []
   \<and> \<not> py_in ''x'' ''hello ''
   \<and> \<not> startswith ''hello '' ''ASSISTANT:'' \<and> \<not> startswith ''hello '' ''Assistant:''
   \<and> \<not> startswith ''hello '' ''AI:'' \<and> \<not> startswith ''hello '' ''Bot:''
   \<and> length ''hello '' \<le> 500
   \<and> clean_response ''hello '' ''x'' \<noteq> ''hello ''"
  by code_simp

subsection \<open>C8: the conversation id of the result\<close>

text \<open>
  Claim C8, amended. The conversation id of the result is the string of the caller when
  that string is not empty, and the identifier that \<^verbatim>\<open>uuid.uuid4()\<close> returned for this
  call when the caller gave none or gave the empty string.
\<close>

theorem conversation_id_resolved:
  "conversation_id (fst (chat settings env self message given history context))
     = (case given of None \<Rightarrow> uuid4 env | Some c \<Rightarrow> if c = [] then uuid4 env else c)"
proof -
  obtain generated where "generate_response env
      (create_business_prompt settings self message
        (let conversation_context =
            (case history of None \<Rightarrow> []
             | Some h \<Rightarrow> if h \<noteq> [] then build_conversation_context h 3 else [])
         in case context of None \<Rightarrow> conversation_context
            | Some c \<Rightarrow> if c \<noteq> [] then conversation_context @ nl @ ''Additional Context: '' @ c
                         else conversation_context)) = Inr generated"
    using generate_response_returns by blast
  then show ?thesis
    by (cases "is_on_topic self message")
       (simp add: chat_def chat_with_def chat_try_def Let_def)
qed

theorem conversation_id_resolved_witness:
  "conversation_id (fst (chat default_settings answering_env (new_service default_settings)
       ''Hello'' (Some ''abc'') None None)) = ''abc''
   \<and> conversation_id (fst (chat default_settings answering_env (new_service default_settings)
       ''Hello'' (Some []) None None)) = ''0f8fad5b-d9cb-469f-a165-70867728950e''
   \<and> conversation_id (fst (chat default_settings answering_env (new_service default_settings)
       ''Hello'' None None None)) = ''0f8fad5b-d9cb-469f-a165-70867728950e''"
  using conversation_id_resolved [of default_settings answering_env "new_service default_settings"
      "''Hello''" "Some ''abc''" None None]
    conversation_id_resolved [of default_settings answering_env "new_service default_settings"
      "''Hello''" "Some []" None None]
    conversation_id_resolved [of default_settings answering_env "new_service default_settings"
      "''Hello''" None None None]
  by (simp add: answering_env_def)

text \<open>
  The claim as stated fails for a caller who supplies the empty string: the result
  carries the generated identifier, not the string supplied.
\<close>

theorem conversation_id_counterexample:
  "conversation_id (fst (chat default_settings answering_env (new_service default_settings)
       ''Hello'' (Some []) None None)) \<noteq> []"
  by code_simp

subsection \<open>C9: unknown conversations\<close>

text \<open>
  Claim C9. The history of a conversation id that is not in the memory is the empty
  list, clearing such an id changes nothing, and after \<^verbatim>\<open>clear_conversation\<close> the
  history of the id is empty, whether the id was known or not. A new service knows no
  id.
\<close>

theorem unknown_conversation_is_empty:
  "(conversation_memory self cid = None \<longrightarrow>
      get_conversation_history self cid = [] \<and> clear_conversation self cid = self)
   \<and> get_conversation_history (clear_conversation self cid) cid = []
   \<and> get_conversation_history (new_service settings) cid = []"
  by (simp add: get_conversation_history_def clear_conversation_def new_service_def)

theorem unknown_conversation_is_empty_witness:
  "conversation_memory populated_service ''zzz'' = None
   \<and> get_conversation_history populated_service ''zzz'' = []
   \<and> clear_conversation populated_service ''zzz'' = populated_service
   \<and> get_conversation_history populated_service ''abc'' \<noteq> []
   \<and> get_conversation_history (clear_conversation populated_service ''abc'') ''abc'' = []"
proof -
  have unknown: "conversation_memory populated_service ''zzz'' = None"
    by (simp add: populated_service_def store_exchange_def new_service_def)
  have known: "get_conversation_history populated_service ''abc'' \<noteq> []"
    by (simp add: populated_service_def store_exchange_history last_n_def)
  show ?thesis
    using unknown known
      unknown_conversation_is_empty [of populated_service "''zzz''"]
      unknown_conversation_is_empty [of populated_service "''abc''"]
    by simp
qed

subsection \<open>C10: tokens on the generation path\<close>

text \<open>
  Claim C10. On the generation path, where the topic check accepts the message and
  there is no direct answer, the response of the result is the cleaned text of the
  generator, and the tokens of the result are the number of words of that response, as
  \<^verbatim>\<open>split()\<close> counts them.
\<close>

theorem generation_result_counts_words:
  assumes "fst (is_on_topic self message)"
    and "get_direct_answer settings message = None"
  shows "\<exists>generated.
      generate_response env (chat_prompt settings self message history context) = Inr generated
      \<and> response (fst (chat settings env self message given history context))
          = clean_response generated message
      \<and> tokens_used (fst (chat settings env self message given history context))
          = length (py_split (clean_response generated message))"
proof -
  obtain generated where gen:
    "generate_response env (chat_prompt settings self message history context) = Inr generated"
    using generate_response_returns by blast
  have "response (fst (chat settings env self message given history context))
          = clean_response generated message
      \<and> tokens_used (fst (chat settings env self message given history context))
          = length (py_split (clean_response generated message))"
    by (simp add: chat_def chat_with_generation [OF assms] chat_try_eq gen Let_def)
  with gen show ?thesis by blast
qed

theorem generation_result_counts_words_witness:
  "fst (is_on_topic (new_service default_settings) ''Hello'')
   \<and> get_direct_answer default_settings ''Hello'' = None
   \<and> response (fst (chat default_settings answering_env (new_service default_settings)
        ''Hello'' None None None)) = ''Glad to help you today.''
   \<and> tokens_used (fst (chat default_settings answering_env (new_service default_settings)
        ''Hello'' None None None)) = 5
   \<and> (\<exists>generated.
      generate_response answering_env (chat_prompt default_settings
          (new_service default_settings) ''Hello'' None None) = Inr generated
      \<and> response (fst (chat default_settings answering_env (new_service default_settings)
            ''Hello'' None None None)) = clean_response generated ''Hello''
      \<and> tokens_used (fst (chat default_settings answering_env (new_service default_settings)
            ''Hello'' None None None)) = length (py_split (clean_response generated ''Hello'')))"
proof -
  have gate: "fst (is_on_topic (new_service default_settings) ''Hello'')"
    by code_simp
  have direct: "get_direct_answer default_settings ''Hello'' = None"
    by code_simp
  have answer: "response (fst (chat default_settings answering_env (new_service default_settings)
        ''Hello'' None None None)) = ''Glad to help you today.''"
    by code_simp
  have count: "tokens_used (fst (chat default_settings answering_env
        (new_service default_settings) ''Hello'' None None None)) = 5"
    by code_simp
  show ?thesis
    using gate direct answer count
      generation_result_counts_words [OF gate direct, of answering_env None None None]
    by blast
qed

end
